theory Spec2Isabelle
  imports Main "HOL-Library.Word" "HOL-Library.Sublist"
begin

unbundle bit_operations_syntax

section \<open>The tree algebra\<close>

text \<open>
  Every value and every program of ELFE/XL is a tree of one of eight kinds. The constructors
  take their arguments in the order of the C++ constructors: \<open>Text value opening closing\<close>,
  \<open>Block child opening closing\<close>, \<open>Infix name left right\<close>. An \<open>Integer\<close> holds a
  \<open>longlong\<close> (64 bits, two's complement) and a \<open>Real\<close> holds the 64 bits of an IEEE-754
  double. Source positions and comment annotations do not take part in any comparison or
  decision of the functions below and are left out of the nodes.
\<close>

datatype tree =
    Integer "64 word"
  | Real "64 word"
  | Text string string string
  | Name string
  | Block tree string string
  | Prefix tree tree
  | Postfix tree tree
  | Infix string tree tree

text \<open>
  Modelled from the spec: the declaration of \<open>enum kind\<close> (tree.h) is missing; the kinds
  are numbered in the order in which the data model lists them, leaves first.
\<close>

datatype kind = INTEGER | REAL | TEXT | NAME | BLOCK | PREFIX | POSTFIX | INFIX

fun kind_index :: "kind \<Rightarrow> nat" where
  "kind_index INTEGER = 0"
| "kind_index REAL = 1"
| "kind_index TEXT = 2"
| "kind_index NAME = 3"
| "kind_index BLOCK = 4"
| "kind_index PREFIX = 5"
| "kind_index POSTFIX = 6"
| "kind_index INFIX = 7"

fun Kind :: "tree \<Rightarrow> kind" where
  "Kind (Integer _) = INTEGER"
| "Kind (Real _) = REAL"
| "Kind (Text _ _ _) = TEXT"
| "Kind (Name _) = NAME"
| "Kind (Block _ _ _) = BLOCK"
| "Kind (Prefix _ _) = PREFIX"
| "Kind (Postfix _ _) = POSTFIX"
| "Kind (Infix _ _ _) = INFIX"

section \<open>Helpers of context.h\<close>

subsection \<open>\<open>RewriteDefined\<close> and \<open>RewriteType\<close>\<close>

text \<open>
  \<open>RewriteDefined\<close> runs three tests one after the other on the same variable \<open>form\<close>:
  an infix named \<open>as\<close> or \<open>:\<close> is replaced by its left operand, then an infix named
  \<open>when\<close> is replaced by its left operand, then a block is replaced by its child.
\<close>

definition RewriteDefined :: "tree \<Rightarrow> tree" where
  "RewriteDefined form =
     (let form1 = (case form of
                     Infix name l r \<Rightarrow> if name = ''as'' \<or> name = '':'' then l else form
                   | _ \<Rightarrow> form);
          form2 = (case form1 of
                     Infix name l r \<Rightarrow> if name = ''when'' then l else form1
                   | _ \<Rightarrow> form1);
          form3 = (case form2 of
                     Block child opening closing \<Rightarrow> child
                   | _ \<Rightarrow> form2)
      in form3)"

definition RewriteType :: "tree \<Rightarrow> tree option" where
  "RewriteType what =
     (case what of
        Infix name l r \<Rightarrow> if name = ''as'' then Some r else None
      | _ \<Rightarrow> None)"

text \<open>
  The reading of the specification: whatever guards, type annotations and blocks enclose
  the defined form, in any order and any number, they are all removed.
\<close>

fun defined_form_spec :: "tree \<Rightarrow> tree" where
  "defined_form_spec (Infix name l r) =
     (if name = ''as'' \<or> name = '':'' \<or> name = ''when'' then defined_form_spec l
      else Infix name l r)"
| "defined_form_spec (Block child opening closing) = defined_form_spec child"
| "defined_form_spec form = form"

text \<open>
  The three shapes that \<open>RewriteDefined\<close> tests for: an infix named \<open>as\<close> or \<open>:\<close>, an
  infix named \<open>when\<close>, and a block.
\<close>

definition is_type_annotation :: "tree \<Rightarrow> bool" where
  "is_type_annotation t =
     (case t of Infix name l r \<Rightarrow> name = ''as'' \<or> name = '':'' | _ \<Rightarrow> False)"

definition is_guard :: "tree \<Rightarrow> bool" where
  "is_guard t = (case t of Infix name l r \<Rightarrow> name = ''when'' | _ \<Rightarrow> False)"

definition is_block :: "tree \<Rightarrow> bool" where
  "is_block t = (case t of Block child opening closing \<Rightarrow> True | _ \<Rightarrow> False)"

subsection \<open>\<open>Context::Rehash\<close>\<close>

text \<open>
  \<open>static inline ulong Rehash(ulong h) { return (h>>1) | (h<<31); }\<close> where \<open>ulong\<close> is
  \<open>unsigned long\<close>. The width of \<open>unsigned long\<close> is fixed by the platform (32 bits
  on ILP32 and on Windows, 64 bits on LP64 Linux and macOS), so the model is polymorphic in
  the width of the word.
\<close>

definition Rehash :: "'a::len word \<Rightarrow> 'a word" where
  "Rehash h = drop_bit 1 h OR push_bit 31 h"

type_synonym ulong32 = "32 word"
type_synonym ulong64 = "64 word"

section \<open>Tokens\<close>

text \<open>
  Modelled from the spec: the scanner (scanner.h, scanner.cpp) is missing. A token is what
  the scanner hands over with it: the token kind, the values read by \<open>NameValue\<close>,
  \<open>TextValue\<close>, \<open>TokenText\<close>, \<open>IntegerValue\<close> and \<open>RealValue\<close>, whether white space stood
  before and after it, and the delimiters of a long text. The input of the syntax reader
  and of the parser is the list of the tokens still to come; when the list is exhausted the
  scanner is at the end of its input and answers \<open>tokEOF\<close> with empty values.
\<close>

datatype token_t =
    tokNONE | tokEOF | tokINTEGER | tokREAL | tokSTRING | tokQUOTE | tokLONGSTRING
  | tokNAME | tokSYMBOL | tokNEWLINE | tokPAROPEN | tokPARCLOSE | tokINDENT | tokUNINDENT
  | tokERROR

record token =
  tok :: token_t
  NameValue :: string
  TextValue :: string
  TokenText :: string
  IntegerValue :: "64 word"
  RealValue :: "64 word"
  hadSpaceBefore :: bool
  hadSpaceAfter :: bool
  openquote :: string
  closequote :: string

definition eof_token :: token where
  "eof_token = \<lparr> tok = tokEOF, NameValue = [], TextValue = [], TokenText = [],
                 IntegerValue = 0, RealValue = 0, hadSpaceBefore = False,
                 hadSpaceAfter = False, openquote = [], closequote = [] \<rparr>"

text \<open>
  Modelled from the spec: the declarations of \<open>Block::indent\<close> and \<open>Block::unindent\<close>
  (tree.h) are missing; they are the two distinguished sentinels that open and close an
  indentation block.
\<close>

definition Block_indent :: string where
  "Block_indent = ''I+''"

definition Block_unindent :: string where
  "Block_unindent = ''I-''"

section \<open>The syntax table (syntax.cpp)\<close>

text \<open>
  The class declaration (syntax.h) is missing; the fields are the ones syntax.cpp reads and
  writes. The priority and delimiter tables are \<open>std::map\<close>s, the known tokens and prefixes
  are \<open>std::set\<close>s. A \<open>ChildSyntax\<close> is a \<open>Syntax\<close> with the name of its file and the
  delimiters that switch to it.
\<close>

record syntax_tables =
  prefix_priority :: "string \<rightharpoonup> int"
  infix_priority :: "string \<rightharpoonup> int"
  postfix_priority :: "string \<rightharpoonup> int"
  comment_delimiters :: "string \<rightharpoonup> string"
  text_delimiters :: "string \<rightharpoonup> string"
  block_delimiters :: "string \<rightharpoonup> string"
  known_tokens :: "string set"
  known_prefixes :: "string set"
  default_priority :: int
  statement_priority :: int
  function_priority :: int

datatype Syntax =
  Syntax (tables: syntax_tables)
         (subsyntax_file: "string \<rightharpoonup> string")
         (subsyntax: "string \<rightharpoonup> ChildSyntax")
and ChildSyntax =
  ChildSyntax (child_syntax: Syntax) (filename: string) (delimiters: "string \<rightharpoonup> string")

text \<open>
  What a syntax table takes from its host: the library path of the options, and the reading
  of a child syntax file from the file system into a syntax (\<open>ReadSyntaxFile(filename)\<close>,
  which opens a scanner on the file), and the freshly constructed \<open>ChildSyntax\<close> that
  \<open>subsyntax[txt]\<close> inserts for a new key.
\<close>

record host =
  libpath :: string
  read_syntax_file :: "string \<Rightarrow> Syntax \<Rightarrow> Syntax"
  new_ChildSyntax :: ChildSyntax

definition InfixPriority :: "Syntax \<Rightarrow> string \<Rightarrow> int" where
  "InfixPriority s n =
     (case infix_priority (tables s) n of
        Some p \<Rightarrow> if p \<noteq> 0 then p else default_priority (tables s)
      | None \<Rightarrow> default_priority (tables s))"

definition PrefixPriority :: "Syntax \<Rightarrow> string \<Rightarrow> int" where
  "PrefixPriority s n =
     (case prefix_priority (tables s) n of
        Some p \<Rightarrow> if p \<noteq> 0 then p else default_priority (tables s)
      | None \<Rightarrow> default_priority (tables s))"

definition PostfixPriority :: "Syntax \<Rightarrow> string \<Rightarrow> int" where
  "PostfixPriority s n =
     (case postfix_priority (tables s) n of
        Some p \<Rightarrow> if p \<noteq> 0 then p else default_priority (tables s)
      | None \<Rightarrow> default_priority (tables s))"

text \<open>
  \<open>IsComment\<close>, \<open>IsTextDelimiter\<close> and \<open>IsBlock\<close> return a boolean and, when it is true,
  the closing delimiter through a reference: here \<open>Some End\<close> or \<open>None\<close>.
\<close>

definition IsComment :: "Syntax \<Rightarrow> string \<Rightarrow> string option" where
  "IsComment s Begin = comment_delimiters (tables s) Begin"

definition IsTextDelimiter :: "Syntax \<Rightarrow> string \<Rightarrow> string option" where
  "IsTextDelimiter s Begin = text_delimiters (tables s) Begin"

definition IsBlock :: "Syntax \<Rightarrow> string \<Rightarrow> string option" where
  "IsBlock s Begin = block_delimiters (tables s) Begin"

text \<open>
  A failed \<open>assert\<close> aborts the program: the makefile removes \<open>-DNDEBUG\<close> from the
  compiler flags it takes from LLVM.
\<close>

datatype abort = AssertionFailed

text \<open>
  \<open>HasSpecialSyntax\<close> returns the child syntax and, through a reference, the closing
  delimiter, or null. \<open>subsyntax[filename]\<close> is the child stored for the file, or a freshly
  constructed one when there is none, and the code asserts that the file name of the child
  is the name it was looked up by. The entry that \<open>subsyntax[filename]\<close> inserts for a
  missing key is the fresh child, which every later look-up would construct again: the
  table is left as it is.
\<close>

definition HasSpecialSyntax ::
  "host \<Rightarrow> Syntax \<Rightarrow> string \<Rightarrow> abort + (ChildSyntax \<times> string) option" where
  "HasSpecialSyntax h s Begin =
     (case subsyntax_file s Begin of
        None \<Rightarrow> Inr None
      | Some file \<Rightarrow>
          (let child = (case subsyntax s file of Some c \<Rightarrow> c | None \<Rightarrow> new_ChildSyntax h)
           in if filename child \<noteq> file then Inl AssertionFailed
              else (case delimiters child Begin of
                      None \<Rightarrow> Inr None
                    | Some End \<Rightarrow> Inr (Some (child, End)))))"

subsection \<open>\<open>Options::LibPath\<close>\<close>

text \<open>
  \<open>name.rfind(extension)\<close> is the last position where \<open>extension\<close> occurs in \<open>name\<close>, or
  \<open>npos\<close>, the largest \<open>size_t\<close>; it is compared with the difference of the two lengths,
  computed in \<open>size_t\<close> (64 bits here), which wraps around when \<open>name\<close> is the shorter.
\<close>

definition rfind :: "string \<Rightarrow> string \<Rightarrow> nat option" where
  "rfind name extension =
     (case filter (\<lambda>i. take (length extension) (drop i name) = extension)
             (rev [0 ..< Suc (length name - length extension)]) of
        [] \<Rightarrow> None
      | i # _ \<Rightarrow> Some i)"

definition LibPath :: "string \<Rightarrow> string \<Rightarrow> string \<Rightarrow> string" where
  "LibPath name extension base =
     (let found = (case rfind name extension of
                     None \<Rightarrow> (2 ^ 64 - 1 :: int)
                   | Some i \<Rightarrow> int i);
          name1 = (if found \<noteq> (int (length name) - int (length extension)) mod 2 ^ 64
                   then name @ extension else name);
          name2 = (if CHR ''/'' \<notin> set name1 then base @ name1 else name1)
      in name2)"

subsection \<open>\<open>Syntax::ReadSyntaxFile\<close>\<close>

datatype State =
    inUnknown | inPrefix | inInfix | inPostfix
  | inComment | inCommentDef
  | inText | inTextDef
  | inBlock | inBlockDef
  | inSyntaxName | inSyntax | inSyntaxDef

fun State_index :: "State \<Rightarrow> nat" where
  "State_index inUnknown = 0"
| "State_index inPrefix = 1"
| "State_index inInfix = 2"
| "State_index inPostfix = 3"
| "State_index inComment = 4"
| "State_index inCommentDef = 5"
| "State_index inText = 6"
| "State_index inTextDef = 7"
| "State_index inBlock = 8"
| "State_index inBlockDef = 9"
| "State_index inSyntaxName = 10"
| "State_index inSyntax = 11"
| "State_index inSyntaxDef = 12"

text \<open>
  The variables of the loop. The pointer \<open>childSyntax\<close> into the map \<open>subsyntax\<close> is the
  key of the entry it points to. \<open>indents\<close> is a \<open>uint\<close>.
\<close>

record reader =
  this :: Syntax
  state :: State
  entry :: string
  priority :: int
  is_done :: bool
  childSyntax :: "string option"
  indents :: "32 word"

definition update_tables :: "(syntax_tables \<Rightarrow> syntax_tables) \<Rightarrow> reader \<Rightarrow> reader" where
  "update_tables f r =
     r\<lparr> this := Syntax (f (tables (this r))) (subsyntax_file (this r)) (subsyntax (this r)) \<rparr>"

definition add_known_token :: "string \<Rightarrow> syntax_tables \<Rightarrow> syntax_tables" where
  "add_known_token t T =
     T\<lparr> known_prefixes := known_prefixes T \<union> set (map (\<lambda>i. take i t) [1 ..< length t]),
        known_tokens := insert t (known_tokens T) \<rparr>"

definition virtual_delimiter :: "string \<Rightarrow> string" where
  "virtual_delimiter txt =
     (if txt = ''NEWLINE'' then [CHR 0x0A]
      else if txt = ''INDENT'' then Block_indent
      else if txt = ''UNINDENT'' then Block_unindent
      else txt)"

definition read_entry :: "host \<Rightarrow> string \<Rightarrow> reader \<Rightarrow> reader" where
  "read_entry h txt r =
     (case state r of
        inUnknown \<Rightarrow> r
      | inPrefix \<Rightarrow>
          update_tables (\<lambda>T. T\<lparr> prefix_priority := (prefix_priority T)(txt \<mapsto> priority r) \<rparr>) r
      | inPostfix \<Rightarrow>
          update_tables (\<lambda>T. T\<lparr> postfix_priority := (postfix_priority T)(txt \<mapsto> priority r) \<rparr>) r
      | inInfix \<Rightarrow>
          update_tables (\<lambda>T. T\<lparr> infix_priority := (infix_priority T)(txt \<mapsto> priority r) \<rparr>) r
      | inComment \<Rightarrow> r\<lparr> entry := txt, state := inCommentDef \<rparr>
      | inCommentDef \<Rightarrow>
          (update_tables
             (\<lambda>T. T\<lparr> comment_delimiters := (comment_delimiters T)(entry r \<mapsto> txt) \<rparr>) r)
            \<lparr> state := inComment \<rparr>
      | inText \<Rightarrow> r\<lparr> entry := txt, state := inTextDef \<rparr>
      | inTextDef \<Rightarrow>
          (update_tables
             (\<lambda>T. T\<lparr> text_delimiters := (text_delimiters T)(entry r \<mapsto> txt) \<rparr>) r)
            \<lparr> state := inText \<rparr>
      | inBlock \<Rightarrow>
          (update_tables
             (\<lambda>T. T\<lparr> infix_priority := (infix_priority T)(txt \<mapsto> priority r) \<rparr>) r)
            \<lparr> entry := txt, state := inBlockDef \<rparr>
      | inBlockDef \<Rightarrow>
          (update_tables
             (\<lambda>T. T\<lparr> block_delimiters := (block_delimiters T)(entry r \<mapsto> txt, txt \<mapsto> []),
                      infix_priority := (infix_priority T)(txt \<mapsto> priority r) \<rparr>) r)
            \<lparr> state := inBlock \<rparr>
      | inSyntaxName \<Rightarrow>
          (let file = LibPath txt ''.syntax'' (libpath h);
               s = this r;
               child0 = (case subsyntax s file of Some c \<Rightarrow> c | None \<Rightarrow> new_ChildSyntax h);
               child1 = (if filename child0 = []
                         then ChildSyntax (read_syntax_file h file (child_syntax child0)) file
                                (delimiters child0)
                         else child0)
           in r\<lparr> this := Syntax (tables s) (subsyntax_file s) ((subsyntax s)(file \<mapsto> child1)),
                 childSyntax := Some file,
                 state := inSyntax \<rparr>)
      | inSyntax \<Rightarrow> r\<lparr> entry := txt, state := inSyntaxDef \<rparr>
      | inSyntaxDef \<Rightarrow>
          (let s = this r in
           case childSyntax r of
             None \<Rightarrow> r\<lparr> state := inSyntax \<rparr>
           | Some file \<Rightarrow>
               (case subsyntax s file of
                  None \<Rightarrow> r\<lparr> state := inSyntax \<rparr>
                | Some c \<Rightarrow>
                    r\<lparr> this := Syntax (tables s)
                                 ((subsyntax_file s)(entry r \<mapsto> filename c))
                                 ((subsyntax s)(file \<mapsto>
                                     ChildSyntax (child_syntax c) (filename c)
                                       ((delimiters c)(entry r \<mapsto> txt)))),
                       state := inSyntax \<rparr>)))"

definition read_name :: "host \<Rightarrow> string \<Rightarrow> reader \<Rightarrow> reader" where
  "read_name h txt0 r =
     (let txt = virtual_delimiter txt0 in
      if txt = ''INFIX'' then r\<lparr> state := inInfix \<rparr>
      else if txt = ''PREFIX'' then r\<lparr> state := inPrefix \<rparr>
      else if txt = ''POSTFIX'' then r\<lparr> state := inPostfix \<rparr>
      else if txt = ''BLOCK'' then r\<lparr> state := inBlock \<rparr>
      else if txt = ''COMMENT'' then r\<lparr> state := inComment \<rparr>
      else if txt = ''TEXT'' then r\<lparr> state := inText \<rparr>
      else if txt = ''SYNTAX'' then r\<lparr> state := inSyntaxName \<rparr>
      else if txt = ''STATEMENT''
        then update_tables (\<lambda>T. T\<lparr> statement_priority := priority r \<rparr>) r
      else if txt = ''FUNCTION''
        then update_tables (\<lambda>T. T\<lparr> function_priority := priority r \<rparr>) r
      else if txt = ''DEFAULT''
        then update_tables (\<lambda>T. T\<lparr> default_priority := priority r \<rparr>) r
      else read_entry h txt r)"

text \<open>One turn of the loop, for the token \<open>t\<close> that \<open>scanner.NextToken\<close> returned.\<close>

definition read_token :: "host \<Rightarrow> token \<Rightarrow> reader \<Rightarrow> reader" where
  "read_token h t r =
     (let r1 = (if tok t = tokSYMBOL \<or> State_index inComment \<le> State_index (state r)
                then update_tables (add_known_token (TextValue t)) r else r)
      in case tok t of
           tokEOF \<Rightarrow> r1
         | tokINTEGER \<Rightarrow> r1\<lparr> priority := sint (ucast (IntegerValue t) :: 32 word) \<rparr>
         | tokINDENT \<Rightarrow> r1\<lparr> indents := indents r1 + 1 \<rparr>
         | tokPAROPEN \<Rightarrow> r1\<lparr> indents := indents r1 + 1 \<rparr>
         | tokUNINDENT \<Rightarrow>
             r1\<lparr> indents := indents r1 - 1, is_done := (is_done r1 \<or> indents r1 - 1 = 0) \<rparr>
         | tokPARCLOSE \<Rightarrow>
             r1\<lparr> indents := indents r1 - 1, is_done := (is_done r1 \<or> indents r1 - 1 = 0) \<rparr>
         | tokNAME \<Rightarrow> read_name h (TextValue t) r1
         | tokSYMBOL \<Rightarrow> read_name h (TextValue t) r1
         | tokSTRING \<Rightarrow> read_name h (TextValue t) r1
         | tokQUOTE \<Rightarrow> read_name h (TextValue t) r1
         | _ \<Rightarrow> r1)"

text \<open>
  \<open>while (tok != tokEOF && !done)\<close>: the loop reads a token, handles it, and stops after
  the end of the input or after the token that brings \<open>indents\<close> back to zero. The result
  is the reader at the end and the tokens left to the caller's scanner.
\<close>

fun read_loop :: "host \<Rightarrow> reader \<Rightarrow> token list \<Rightarrow> reader \<times> token list" where
  "read_loop h r [] = (read_token h eof_token r, [])"
| "read_loop h r (t # ts) =
     (let r' = read_token h t r in
      if tok t = tokEOF \<or> is_done r' then (r', ts) else read_loop h r' ts)"

definition ReadSyntaxFile :: "host \<Rightarrow> Syntax \<Rightarrow> token list \<Rightarrow> 32 word \<Rightarrow> Syntax \<times> token list" where
  "ReadSyntaxFile h s scanner n =
     (let (r, rest) =
            read_loop h \<lparr> this = s, state = inUnknown, entry = [], priority = 0,
                          is_done = False, childSyntax = None, indents = n \<rparr> scanner
      in (this r, rest))"

text \<open>
  The names that change the section or set one of the three global priorities, and the
  token kinds whose text the reader takes as an entry.
\<close>

definition section_keyword :: "string \<Rightarrow> bool" where
  "section_keyword txt \<longleftrightarrow>
     txt \<in> set [''INFIX'', ''PREFIX'', ''POSTFIX'', ''BLOCK'', ''COMMENT'', ''TEXT'', ''SYNTAX'',
                ''STATEMENT'', ''FUNCTION'', ''DEFAULT'']"

definition entry_token :: "token \<Rightarrow> bool" where
  "entry_token t \<longleftrightarrow>
     tok t = tokNAME \<or> tok t = tokSYMBOL \<or> tok t = tokSTRING \<or> tok t = tokQUOTE"

subsection \<open>Concrete inputs for the syntax reader\<close>

definition empty_tables :: syntax_tables where
  "empty_tables =
     \<lparr> prefix_priority = Map.empty, infix_priority = Map.empty,
       postfix_priority = Map.empty, comment_delimiters = Map.empty,
       text_delimiters = Map.empty, block_delimiters = Map.empty,
       known_tokens = {}, known_prefixes = {}, default_priority = 0,
       statement_priority = 100, function_priority = 200 \<rparr>"

definition empty_Syntax :: Syntax where
  "empty_Syntax = Syntax empty_tables Map.empty Map.empty"

definition example_host :: host where
  "example_host =
     \<lparr> libpath = ''lib/'', read_syntax_file = (\<lambda>file s. s),
       new_ChildSyntax = ChildSyntax empty_Syntax [] Map.empty \<rparr>"

definition name_token :: "string \<Rightarrow> token" where
  "name_token n =
     eof_token\<lparr> tok := tokNAME, NameValue := n, TextValue := n, TokenText := n \<rparr>"

definition integer_token :: "64 word \<Rightarrow> token" where
  "integer_token n = eof_token\<lparr> tok := tokINTEGER, IntegerValue := n \<rparr>"

definition block_reader :: reader where
  "block_reader =
     \<lparr> this = empty_Syntax, state = inBlock, entry = [], priority = 25,
       is_done = False, childSyntax = None, indents = 0 \<rparr>"

section \<open>The rewrite-call binder (compiler-args.cpp)\<close>

text \<open>
  Modelled from the spec: the declaration of \<open>BindingStrength\<close> (compiler-args.h) is
  missing. The three strengths are ordered \<open>FAILED < POSSIBLE < PERFECT\<close>, the order in
  which \<open>Bind\<close> indexes its table of names (impossible, possible, unconditional).
\<close>

datatype BindingStrength = FAILED | POSSIBLE | PERFECT

fun strength_index :: "BindingStrength \<Rightarrow> nat" where
  "strength_index FAILED = 0"
| "strength_index POSSIBLE = 1"
| "strength_index PERFECT = 2"

text \<open>\<open>if (left > right) left = right; return left;\<close>\<close>

definition weakest :: "BindingStrength \<Rightarrow> BindingStrength \<Rightarrow> BindingStrength" where
  "weakest l r = (if strength_index l > strength_index r then r else l)"

text \<open>
  Modelled from the spec: the declarations of the predefined type names and of \<open>xl_true\<close>
  (basics) are missing. They are the names \<open>integer\<close>, \<open>real\<close>, \<open>text\<close>, \<open>name\<close>, \<open>block\<close>,
  \<open>infix\<close>, \<open>prefix\<close>, \<open>postfix\<close>, \<open>boolean\<close>, \<open>tree\<close> and \<open>true\<close>. The code compares
  types with them by pointer; each of them is a single shared node, so that the comparison
  is the equality of the names.
\<close>

definition integer_type :: tree where "integer_type = Name ''integer''"
definition real_type :: tree where "real_type = Name ''real''"
definition text_type :: tree where "text_type = Name ''text''"
definition name_type :: tree where "name_type = Name ''name''"
definition block_type :: tree where "block_type = Name ''block''"
definition infix_type :: tree where "infix_type = Name ''infix''"
definition prefix_type :: tree where "prefix_type = Name ''prefix''"
definition postfix_type :: tree where "postfix_type = Name ''postfix''"
definition boolean_type :: tree where "boolean_type = Name ''boolean''"
definition tree_type :: tree where "tree_type = Name ''tree''"
definition xl_true :: tree where "xl_true = Name ''true''"

text \<open>
  \<open>iv->value == f->value\<close> on two \<open>double\<close>s: a NaN is equal to nothing, the two zeros
  are equal, and otherwise the values are equal when their bits are.
\<close>

definition is_nan :: "64 word \<Rightarrow> bool" where
  "is_nan d \<longleftrightarrow>
     d AND 0x7FF0000000000000 = 0x7FF0000000000000 \<and> d AND 0x000FFFFFFFFFFFFF \<noteq> 0"

definition double_eq :: "64 word \<Rightarrow> 64 word \<Rightarrow> bool" where
  "double_eq a b \<longleftrightarrow>
     \<not> is_nan a \<and> \<not> is_nan b \<and>
     (a = b \<or> (a AND 0x7FFFFFFFFFFFFFFF = 0 \<and> b AND 0x7FFFFFFFFFFFFFFF = 0))"

text \<open>
  Modelled from the spec: \<open>Context::Bound\<close> (context.cpp) is missing. It answers null when
  the name is not bound, and otherwise the node the name is bound to, which the binder
  compares with the name by pointer. The trees here carry no address, so the answer says
  which of the two it is: the node of the name itself, or another node, which may well be
  a name of the same spelling.
\<close>

datatype bound_node = SameNode | OtherNode tree

text \<open>
  The classes \<open>Types\<close>, \<open>Context\<close> and \<open>Errors\<close> that the binder calls are not part of the
  sources at hand (types.h declares another version of \<open>Types\<close>). Their objects (the type
  inference \<open>vtypes\<close> of the caller, the type inference \<open>btypes\<close> of the candidate with its
  context, and the error sink) make up a state \<open>'w\<close>, and each member function the binder
  calls is a parameter that reads or changes this state. A \<open>Tree *\<close> that may be null
  is a \<open>tree option\<close>.
\<close>

record ('w, 'rc) types_ops =
  vtypes_Type :: "tree \<Rightarrow> 'w \<Rightarrow> tree option \<times> 'w"
  vtypes_HasRewriteCalls :: "tree \<Rightarrow> 'w \<Rightarrow> 'rc option"
  vtypes_EvaluateType :: "tree \<Rightarrow> 'w \<Rightarrow> tree option \<times> 'w"
  new_btypes :: "'w \<Rightarrow> 'w"
  btypes_SetRewriteCalls :: "tree \<Rightarrow> 'rc \<Rightarrow> 'w \<Rightarrow> 'w"
  btypes_Type :: "tree \<Rightarrow> 'w \<Rightarrow> tree option \<times> 'w"
  btypes_AssignType :: "tree \<Rightarrow> tree option \<Rightarrow> 'w \<Rightarrow> tree option \<times> 'w"
  btypes_NewType :: "tree \<Rightarrow> 'w \<Rightarrow> tree option \<times> 'w"
  btypes_DeclaredTypeName :: "tree option \<Rightarrow> 'w \<Rightarrow> tree option"
  btypes_Unify :: "tree option \<Rightarrow> tree option \<Rightarrow> 'w \<Rightarrow> bool \<times> 'w"
  context_Bound :: "tree \<Rightarrow> 'w \<Rightarrow> bound_node option"
  context_Define :: "tree \<Rightarrow> tree \<Rightarrow> 'w \<Rightarrow> 'w"
  context_CreateScope :: "'w \<Rightarrow> 'w"
  context_ProcessDeclarations :: "tree \<Rightarrow> 'w \<Rightarrow> 'w"
  new_Errors :: "tree \<Rightarrow> 'w \<Rightarrow> 'w"
  errors_HadErrors :: "'w \<Rightarrow> bool"

text \<open>
  Modelled from the spec: the declaration of \<open>RewriteCandidate\<close> (compiler-args.h) is
  missing. A candidate holds the rewrite \<open>Pattern is Body\<close> it stands for (an infix: its
  name, left and right), the scope of the declaration, the list of bindings (name, value),
  the list of runtime conditions (value, test), the list of kind conditions (value, kind)
  and the type inferred for it. \<open>Condition\<close> and \<open>KindCondition\<close> append to their list, and
  the candidate is unconditional when both lists are empty. While a candidate is being
  bound, the state \<open>world\<close> of the objects it works on goes along with it.
\<close>

record 'sc RewriteCandidate =
  rewrite :: "string \<times> tree \<times> tree"
  scope :: 'sc
  bindings :: "(tree \<times> tree) list"
  conditions :: "(tree \<times> tree) list"
  kinds :: "(tree \<times> kind) list"
  rtype :: "tree option"

record ('sc, 'w) binding = "'sc RewriteCandidate" +
  world :: 'w

definition Condition :: "tree \<Rightarrow> tree \<Rightarrow> ('sc, 'w) binding \<Rightarrow> ('sc, 'w) binding" where
  "Condition v test rc = rc\<lparr> conditions := conditions rc @ [(v, test)] \<rparr>"

definition KindCondition :: "tree \<Rightarrow> kind \<Rightarrow> ('sc, 'w) binding \<Rightarrow> ('sc, 'w) binding" where
  "KindCondition v k rc = rc\<lparr> kinds := kinds rc @ [(v, k)] \<rparr>"

definition Unconditional :: "('sc, 'w) binding \<Rightarrow> bool" where
  "Unconditional rc \<longleftrightarrow> kinds rc = [] \<and> conditions rc = []"

text \<open>
  \<open>RewriteCandidate::ValueType\<close>: the type of the value in the caller's inference and, when
  there is one, the copy of the rewrite calls of the value and of the children of its
  blocks into the candidate's inference.
\<close>

fun copy_rewrite_calls :: "('w, 'rc) types_ops \<Rightarrow> tree \<Rightarrow> 'w \<Rightarrow> 'w" where
  "copy_rewrite_calls ops v w =
     (let w1 = (case vtypes_HasRewriteCalls ops v w of
                  Some calls \<Rightarrow> btypes_SetRewriteCalls ops v calls w
                | None \<Rightarrow> w)
      in case v of
           Block child opening closing \<Rightarrow> copy_rewrite_calls ops child w1
         | _ \<Rightarrow> w1)"

definition ValueType ::
  "('w, 'rc) types_ops \<Rightarrow> tree \<Rightarrow> ('sc, 'w) binding \<Rightarrow> tree option \<times> ('sc, 'w) binding" where
  "ValueType ops v rc =
     (let (vtype, w1) = vtypes_Type ops v (world rc) in
      case vtype of
        Some t \<Rightarrow> (vtype, rc\<lparr> world := copy_rewrite_calls ops v w1 \<rparr>)
      | None \<Rightarrow> (vtype, rc\<lparr> world := w1 \<rparr>))"

text \<open>
  \<open>RewriteCandidate::Unify\<close>: when the declared name of the value's type is \<open>tree\<close>, a
  kind condition is recorded according to the kind of the type tree or to the declared
  name of the form's type; then the two types are unified in the candidate's inference.
  The parameter \<open>declaration\<close> is not used by the function. The kind is read from
  \<open>valueType\<close>, which the code dereferences there.
\<close>

definition Unify ::
  "('w, 'rc) types_ops \<Rightarrow> tree option \<Rightarrow> tree option \<Rightarrow> tree \<Rightarrow> tree \<Rightarrow>
   ('sc, 'w) binding \<Rightarrow> bool \<times> ('sc, 'w) binding" where
  "Unify ops valueType formType v form rc =
     (let refType = btypes_DeclaredTypeName ops valueType (world rc);
          rc1 = (if refType = Some tree_type
                 then (let vrefType = btypes_DeclaredTypeName ops formType (world rc);
                           k = map_option Kind valueType
                       in if k = Some INTEGER \<or> vrefType = Some integer_type
                            then KindCondition v INTEGER rc
                          else if k = Some REAL \<or> vrefType = Some real_type
                            then KindCondition v REAL rc
                          else if k = Some TEXT \<or> vrefType = Some text_type
                            then KindCondition v TEXT rc
                          else if vrefType = Some name_type \<or> vrefType = Some boolean_type
                            then KindCondition v NAME rc
                          else if vrefType = Some block_type
                            then KindCondition v BLOCK rc
                          else if k = Some INFIX \<or> vrefType = Some infix_type
                            then KindCondition v INFIX rc
                          else if vrefType = Some prefix_type
                            then KindCondition v PREFIX rc
                          else if vrefType = Some postfix_type
                            then KindCondition v POSTFIX rc
                          else rc)
                 else rc);
          (ok, w1) = btypes_Unify ops valueType formType (world rc1)
      in (ok, rc1\<lparr> world := w1 \<rparr>))"

text \<open>
  The second half of the macro \<open>BIND_CONSTANT\<close>, taken when the value is not a literal of
  the kind of the form: the type of the value is unified with the type \<open>mtype\<close> of the
  literal; on success the equality of value and form becomes a runtime condition.
\<close>

definition bind_constant ::
  "('w, 'rc) types_ops \<Rightarrow> tree \<Rightarrow> tree \<Rightarrow> tree \<Rightarrow> ('sc, 'w) binding \<Rightarrow>
   BindingStrength \<times> ('sc, 'w) binding" where
  "bind_constant ops mtype form v rc =
     (let (type, rc1) = ValueType ops v rc;
          (ok, rc2) = Unify ops type (Some mtype) v form rc1
      in if ok then (POSSIBLE, Condition v form rc2) else (FAILED, rc2))"

text \<open>
  The end of the case \<open>NAME\<close>, from \<open>btypes->Type(name)\<close> on: the type of the value is
  unified with the type of the name, and the name is defined and bound unless it was bound
  before (\<open>needArg\<close>).
\<close>

definition bind_name_type ::
  "('w, 'rc) types_ops \<Rightarrow> tree option \<Rightarrow> tree \<Rightarrow> tree \<Rightarrow> bool \<Rightarrow> ('sc, 'w) binding \<Rightarrow>
   BindingStrength \<times> ('sc, 'w) binding" where
  "bind_name_type ops type form v needArg rc =
     (let (nameType, w1) = btypes_Type ops form (world rc);
          (ok, rc2) = Unify ops type nameType v form (rc\<lparr> world := w1 \<rparr>)
      in if \<not> ok then (FAILED, rc2)
         else if needArg
           then (POSSIBLE, rc2\<lparr> world := context_Define ops form v (world rc2),
                                bindings := bindings rc2 @ [(form, v)] \<rparr>)
         else (POSSIBLE, rc2))"

text \<open>
  The head of the case \<open>NAME\<close>. The code compares the name with the defined form of the
  rewrite by pointer (\<open>fname == name\<close>); \<open>Bind\<close> is called on the defined form and
  recurses into its sub-trees, and a tree is equal to none of its proper sub-trees, so that
  for these forms the pointers are equal exactly when the trees are. The node that
  \<open>context->Bound\<close> returns comes from the context, and \<open>bound != name\<close> is decided by its
  answer: a name that is bound to another node is not bound again, the equality of the
  value and the form becomes a runtime condition instead.
\<close>

definition bind_name ::
  "('w, 'rc) types_ops \<Rightarrow> tree \<Rightarrow> tree \<Rightarrow> ('sc, 'w) binding \<Rightarrow>
   BindingStrength \<times> ('sc, 'w) binding" where
  "bind_name ops form v rc =
     (let fname = RewriteDefined (fst (snd (rewrite rc)))
      in if fname = form then (PERFECT, rc)
         else
           (let (type, rc1) = ValueType ops v rc in
            if type = None then (FAILED, rc1)
            else
              (case context_Bound ops form (world rc1) of
                 None \<Rightarrow> bind_name_type ops type form v True rc1
               | Some SameNode \<Rightarrow> bind_name_type ops type form v True rc1
               | Some (OtherNode bound) \<Rightarrow>
                   (let (boundType, rc2) = ValueType ops bound rc1;
                        (ok, rc3) = Unify ops type boundType v form rc2
                    in if \<not> ok then (FAILED, rc3)
                       else bind_name_type ops type form v False (Condition v form rc3)))))"

text \<open>
  \<open>RewriteCandidate::Bind\<close> and \<open>BindBinary\<close>. The recursion follows the form.
\<close>

fun Bind ::
  "('w, 'rc) types_ops \<Rightarrow> tree \<Rightarrow> tree \<Rightarrow> ('sc, 'w) binding \<Rightarrow>
   BindingStrength \<times> ('sc, 'w) binding"
and BindBinary ::
  "('w, 'rc) types_ops \<Rightarrow> tree \<Rightarrow> tree \<Rightarrow> tree \<Rightarrow> tree \<Rightarrow> ('sc, 'w) binding \<Rightarrow>
   BindingStrength \<times> ('sc, 'w) binding"
where
  "Bind ops (Integer f) v rc =
     (case v of
        Integer iv \<Rightarrow> (if iv = f then PERFECT else FAILED, rc)
      | _ \<Rightarrow> bind_constant ops integer_type (Integer f) v rc)"
| "Bind ops (Real f) v rc =
     (case v of
        Real iv \<Rightarrow> (if double_eq iv f then PERFECT else FAILED, rc)
      | _ \<Rightarrow> bind_constant ops real_type (Real f) v rc)"
| "Bind ops (Text f opening closing) v rc =
     (case v of
        Text iv vopening vclosing \<Rightarrow> (if iv = f then PERFECT else FAILED, rc)
      | _ \<Rightarrow> bind_constant ops text_type (Text f opening closing) v rc)"
| "Bind ops (Name n) v rc = bind_name ops (Name n) v rc"
| "Bind ops (Infix name fl fr) v rc =
     (if name = '':'' \<or> name = ''as'' then
        (let (type, w1) = btypes_AssignType ops fl (Some fr) (world rc);
             (b, rc2) = Bind ops fl v (rc\<lparr> world := w1 \<rparr>)
         in if b = FAILED then (FAILED, rc2)
            else
              (let (valueType, w3) = btypes_Type ops v (world rc2);
                   (ok, rc4) = Unify ops valueType type v fl (rc2\<lparr> world := w3 \<rparr>)
               in if \<not> ok then (FAILED, rc4)
                  else (if Unconditional rc4 then PERFECT else POSSIBLE, rc4)))
      else if name = ''when'' then
        (let (b, rc1) = Bind ops fl v rc
         in if b = FAILED then (FAILED, rc1)
            else
              (let (gt, w2) = btypes_Type ops fr (world rc1)
               in if gt = None then (FAILED, rc1\<lparr> world := w2 \<rparr>)
                  else
                    (let (guardType, w3) = btypes_Type ops fr w2;
                         (ok, rc4) = Unify ops guardType (Some boolean_type) fr fl
                                       (rc1\<lparr> world := w3 \<rparr>)
                     in if \<not> ok then (FAILED, rc4)
                        else (POSSIBLE, Condition fr xl_true rc4))))
      else
        (case (case v of
                 Infix vname vl vr \<Rightarrow> if name = vname then Some (vl, vr) else None
               | _ \<Rightarrow> None) of
           Some (vl, vr) \<Rightarrow>
             (let (left, rc1) = Bind ops fl vl rc
              in if left = FAILED then (FAILED, rc1)
                 else (let (right, rc2) = Bind ops fr vr rc1
                       in (weakest left right, rc2)))
         | None \<Rightarrow>
             (let (type, w1) = btypes_Type ops v (world rc)
              in if type = None then (FAILED, rc\<lparr> world := w1 \<rparr>)
                 else
                   (let (ok, rc2) = Unify ops type (Some infix_type) v (Infix name fl fr)
                                      (rc\<lparr> world := w1 \<rparr>)
                    in if \<not> ok then (FAILED, rc2)
                       else
                         (let infixLeft = Prefix (Name ''left'') v;
                              (left, rc3) = Bind ops fl infixLeft rc2
                          in if left = FAILED then (FAILED, rc3)
                             else
                               (let infixRight = Prefix (Name ''right'') v;
                                    (right, rc4) = Bind ops fr infixRight rc3;
                                    infixName = Prefix (Name ''name'') v;
                                    (nt, w5) = btypes_Type ops infixName (world rc4)
                                in if nt = None then (FAILED, rc4\<lparr> world := w5 \<rparr>)
                                   else
                                     (let infixRequiredName = Text name [CHR 0x22] [CHR 0x22];
                                          (rt, w6) = btypes_Type ops infixRequiredName w5
                                      in if rt = None then (FAILED, rc4\<lparr> world := w6 \<rparr>)
                                         else (weakest left right,
                                               Condition infixName infixRequiredName
                                                 (rc4\<lparr> world := w6 \<rparr>)))))))))"
| "Bind ops (Prefix fl fr) v rc =
     (case v of
        Prefix vl vr \<Rightarrow> BindBinary ops fl vl fr vr rc
      | _ \<Rightarrow> (FAILED, rc))"
| "Bind ops (Postfix fl fr) v rc =
     (case v of
        Postfix vl vr \<Rightarrow> BindBinary ops fr vr fl vl rc
      | _ \<Rightarrow> (FAILED, rc))"
| "Bind ops (Block child opening closing) v rc = Bind ops child v rc"
| "BindBinary ops form1 value1 form2 value2 rc =
     (case form1 of
        Name formName \<Rightarrow>
          (case value1 of
             Name valueName \<Rightarrow>
               if formName \<noteq> valueName then (FAILED, rc) else Bind ops form2 value2 rc
           | _ \<Rightarrow> (FAILED, rc))
      | _ \<Rightarrow> (FAILED, rc))"

subsection \<open>\<open>RewriteCalls::Check\<close>\<close>

text \<open>
  The initializer of a rewrite is a builtin or a C function when it is the name \<open>C\<close> or a
  prefix whose left is the name \<open>builtin\<close> or \<open>C\<close>.
\<close>

definition is_builtin :: "tree \<Rightarrow> bool" where
  "is_builtin init =
     (let b1 = (case init of Name n \<Rightarrow> n = ''C'' | _ \<Rightarrow> False);
          b2 = (case init of
                  Prefix l r \<Rightarrow>
                    (case l of Name pfname \<Rightarrow> pfname = ''builtin'' \<or> pfname = ''C''
                             | _ \<Rightarrow> False)
                | _ \<Rightarrow> False)
      in b1 \<or> b2)"

text \<open>
  The part of \<open>Check\<close> after the binding of the parameters succeeded is the type check of
  the definition, in four steps that pass on the variables \<open>type\<close> and \<open>binding\<close> and the
  state. The first step, \<open>if (type)\<close>: a declared type is assigned to the initializer and
  to the expression.
\<close>

definition check_declared ::
  "('w, 'rc) types_ops \<Rightarrow> tree \<Rightarrow> tree \<Rightarrow> tree option \<times> BindingStrength \<times> 'w \<Rightarrow>
   tree option \<times> BindingStrength \<times> 'w" where
  "check_declared ops what init st =
     (let (type, binding, w) = st in
      if type \<noteq> None
      then (let (t, w1) = btypes_AssignType ops init type w;
                (t', w2) = btypes_AssignType ops what t w1
            in (t', if t' = None then FAILED else binding, w2))
      else (type, binding, w))"

text \<open>
  The second step, \<open>if (binding != FAILED)\<close>: an initializer that is not a builtin has its
  declarations processed in a new scope and its type inferred; a builtin without declared
  type gets a new generic type.
\<close>

definition check_initializer ::
  "('w, 'rc) types_ops \<Rightarrow> tree \<Rightarrow> tree option \<Rightarrow> tree option \<times> BindingStrength \<times> 'w \<Rightarrow>
   tree option \<times> BindingStrength \<times> 'w" where
  "check_initializer ops init declType st =
     (let (type, binding, w) = st in
      if binding \<noteq> FAILED
      then (if \<not> is_builtin init
            then (let w1 = context_ProcessDeclarations ops init (context_CreateScope ops w);
                      (t, w2) = btypes_Type ops init w1
                  in (t, if t = None then FAILED else binding, w2))
            else if declType = None
            then (let (t, w1) = btypes_NewType ops init w in (t, binding, w1))
            else (type, binding, w))
      else (type, binding, w))"

text \<open>
  The third step: the type is assigned to the form and to the defined form, and errors
  reported so far make the binding fail.
\<close>

definition check_form ::
  "('w, 'rc) types_ops \<Rightarrow> tree \<Rightarrow> tree \<Rightarrow> tree option \<times> BindingStrength \<times> 'w \<Rightarrow>
   tree option \<times> BindingStrength \<times> 'w" where
  "check_form ops form defined st =
     (let (type, binding, w) = st;
          (type', w') =
            (if binding \<noteq> FAILED \<and> type \<noteq> None
             then (let (t, w1) = btypes_AssignType ops form type w
                   in if form \<noteq> defined then btypes_AssignType ops defined t w1 else (t, w1))
             else (type, w))
      in (type', if errors_HadErrors ops w' then FAILED else binding, w'))"

text \<open>The fourth step: the type is assigned to the expression.\<close>

definition check_expression ::
  "('w, 'rc) types_ops \<Rightarrow> tree \<Rightarrow> tree option \<times> BindingStrength \<times> 'w \<Rightarrow>
   tree option \<times> BindingStrength \<times> 'w" where
  "check_expression ops what st =
     (let (type, binding, w) = st in
      if binding \<noteq> FAILED
      then (let (t, w1) = btypes_AssignType ops what type w
            in (t, if t = None then FAILED else binding, w1))
      else (type, binding, w))"

text \<open>
  The result is the final value of \<open>binding\<close> and the candidate, with its type set when
  the binding did not fail.
\<close>

definition check_definition ::
  "('w, 'rc) types_ops \<Rightarrow> tree \<Rightarrow> string \<times> tree \<times> tree \<Rightarrow> tree \<Rightarrow> tree option \<Rightarrow>
   tree option \<Rightarrow> BindingStrength \<Rightarrow> ('sc, 'w) binding \<Rightarrow>
   BindingStrength \<times> ('sc, 'w) binding" where
  "check_definition ops what candidate defined declType type0 binding0 rc =
     (let form = fst (snd candidate);
          init = snd (snd candidate);
          (type, binding, w) =
            check_expression ops what
              (check_form ops form defined
                 (check_initializer ops init declType
                    (check_declared ops what init (type0, binding0, world rc))))
      in (binding,
          if binding \<noteq> FAILED then rc\<lparr> rtype := type, world := w \<rparr>
          else rc\<lparr> world := w \<rparr>))"

text \<open>
  The candidate as its constructor makes it, once the error sink is open and the declared
  type, if any, is evaluated in the caller's inference.
\<close>

definition new_RewriteCandidate ::
  "('w, 'rc) types_ops \<Rightarrow> 'sc \<Rightarrow> string \<times> tree \<times> tree \<Rightarrow> 'w \<Rightarrow> ('sc, 'w) binding" where
  "new_RewriteCandidate ops sc candidate w =
     \<lparr> rewrite = candidate, scope = sc, bindings = [], conditions = [], kinds = [],
       rtype = None, world = new_btypes ops w \<rparr>"

definition declared_type ::
  "('w, 'rc) types_ops \<Rightarrow> string \<times> tree \<times> tree \<Rightarrow> ('sc, 'w) binding \<Rightarrow>
   tree option \<times> ('sc, 'w) binding" where
  "declared_type ops candidate rc =
     (case RewriteType (fst (snd candidate)) of
        Some declType \<Rightarrow>
          (let (t, w) = vtypes_EvaluateType ops declType (world rc) in (t, rc\<lparr> world := w \<rparr>))
      | None \<Rightarrow> (None, rc))"

text \<open>
  The final value of the variable \<open>binding\<close> of \<open>Check\<close>, with the candidate. When \<open>Bind\<close>
  fails \<open>Check\<close> returns at once.
\<close>

definition check_binding ::
  "('w, 'rc) types_ops \<Rightarrow> 'sc \<Rightarrow> tree \<Rightarrow> string \<times> tree \<times> tree \<Rightarrow> 'w \<Rightarrow>
   BindingStrength \<times> ('sc, 'w) binding" where
  "check_binding ops sc what candidate w =
     (let rc0 = new_RewriteCandidate ops sc candidate
                  (new_Errors ops (fst (snd candidate)) w);
          form = fst (snd candidate);
          defined = RewriteDefined form;
          declType = RewriteType form;
          (type, rc1) = declared_type ops candidate rc0;
          (binding, rc2) = Bind ops defined what rc1
      in if binding = FAILED then (FAILED, rc2)
         else check_definition ops what candidate defined declType type binding rc2)"

text \<open>
  \<open>RewriteCalls::Check\<close>, the callback of \<open>Context::Lookup\<close>: the state is the list
  \<open>candidates\<close> of the call site and the state of the absent objects. The candidate is
  recorded when the binding did not fail, and the expression is returned when the binding
  is perfect, null otherwise.
\<close>

definition Check ::
  "('w, 'rc) types_ops \<Rightarrow> 'sc \<Rightarrow> tree \<Rightarrow> string \<times> tree \<times> tree \<Rightarrow>
   'sc RewriteCandidate list \<times> 'w \<Rightarrow> tree option \<times> 'sc RewriteCandidate list \<times> 'w" where
  "Check ops sc what candidate st =
     (let (candidates, w) = st;
          (binding, rc) = check_binding ops sc what candidate w;
          candidates' = (if binding \<noteq> FAILED
                         then candidates @ [RewriteCandidate.truncate rc] else candidates)
      in (if binding = PERFECT then Some what else None, candidates', world rc))"

text \<open>
  Modelled from the spec: \<open>Context::Lookup\<close> (context.cpp) is missing. It calls the
  callback on each candidate rule in declaration order, and on a non-null return it stops
  and returns that tree.
\<close>

fun Lookup ::
  "('d \<Rightarrow> 's \<Rightarrow> tree option \<times> 's) \<Rightarrow> 'd list \<Rightarrow> 's \<Rightarrow> tree option \<times> 's" where
  "Lookup callback [] s = (None, s)"
| "Lookup callback (decl # decls) s =
     (case callback decl s of
        (Some found, s') \<Rightarrow> (Some found, s')
      | (None, s') \<Rightarrow> Lookup callback decls s')"

subsection \<open>Concrete inputs for the binder\<close>

text \<open>
  A small type inference without state: a literal has its literal type, every other tree
  has the type \<open>tree\<close>; two types unify when they are equal or one of them is \<open>tree\<close>;
  no name is bound and no error is reported.
\<close>

definition literal_Type :: "tree \<Rightarrow> tree option" where
  "literal_Type t =
     (case t of
        Integer i \<Rightarrow> Some integer_type
      | Real r \<Rightarrow> Some real_type
      | Text v opening closing \<Rightarrow> Some text_type
      | _ \<Rightarrow> Some tree_type)"

definition literal_ops :: "(unit, unit) types_ops" where
  "literal_ops =
     \<lparr> vtypes_Type = (\<lambda>t w. (literal_Type t, w)),
       vtypes_HasRewriteCalls = (\<lambda>t w. None),
       vtypes_EvaluateType = (\<lambda>t w. (Some t, w)),
       new_btypes = (\<lambda>w. w),
       btypes_SetRewriteCalls = (\<lambda>t calls w. w),
       btypes_Type = (\<lambda>t w. (literal_Type t, w)),
       btypes_AssignType = (\<lambda>e t w. (case t of None \<Rightarrow> (literal_Type e, w)
                                                | Some ty \<Rightarrow> (Some ty, w))),
       btypes_NewType = (\<lambda>e w. (Some tree_type, w)),
       btypes_DeclaredTypeName = (\<lambda>t w. t),
       btypes_Unify = (\<lambda>a b w. (a \<noteq> None \<and> b \<noteq> None \<and>
                                  (a = b \<or> a = Some tree_type \<or> b = Some tree_type), w)),
       context_Bound = (\<lambda>n w. None),
       context_Define = (\<lambda>n v w. w),
       context_CreateScope = (\<lambda>w. w),
       context_ProcessDeclarations = (\<lambda>t w. w),
       new_Errors = (\<lambda>t w. w),
       errors_HadErrors = (\<lambda>w. False) \<rparr>"

text \<open>The rewrite \<open>factorial N when N > 0 is N * factorial (N - 1)\<close> and its candidate.\<close>

definition factorial_rewrite :: "string \<times> tree \<times> tree" where
  "factorial_rewrite =
     (''is'',
      Infix ''when'' (Prefix (Name ''factorial'') (Name ''N''))
                     (Infix ''>'' (Name ''N'') (Integer 0)),
      Infix ''*'' (Name ''N'')
        (Prefix (Name ''factorial'')
           (Block (Infix ''-'' (Name ''N'') (Integer 1)) ''('' '')'')))"

definition factorial_candidate :: "(unit, unit) binding" where
  "factorial_candidate = new_RewriteCandidate literal_ops () factorial_rewrite ()"

text \<open>The rewrite \<open>0 is 1\<close>.\<close>

definition zero_rewrite :: "string \<times> tree \<times> tree" where
  "zero_rewrite = (''is'', Integer 0, Integer 1)"

section \<open>Closures (interpreter.h)\<close>

text \<open>
  \<open>MakeClosure\<close> compares trees by pointer, allocates a new prefix and marks it with an
  annotation: here the trees live in a store. A pointer is the index of its node in the list
  of the nodes allocated so far, and a new node is appended at the end. The annotation
  \<open>ClosureInfo\<close> of a node is the membership of its pointer in a set. The static member
  \<open>Context::hasRewritesForKind\<close>, a \<open>uint\<close>, is part of the store. A context is given by the
  pointer to its scope, \<open>symbols\<close>.
\<close>

type_synonym ptr = nat

datatype node =
    NInteger "64 word"
  | NReal "64 word"
  | NText string string string
  | NName string
  | NBlock ptr string string
  | NPrefix ptr ptr
  | NPostfix ptr ptr
  | NInfix string ptr ptr

fun node_Kind :: "node \<Rightarrow> kind" where
  "node_Kind (NInteger _) = INTEGER"
| "node_Kind (NReal _) = REAL"
| "node_Kind (NText _ _ _) = TEXT"
| "node_Kind (NName _) = NAME"
| "node_Kind (NBlock _ _ _) = BLOCK"
| "node_Kind (NPrefix _ _) = PREFIX"
| "node_Kind (NPostfix _ _) = POSTFIX"
| "node_Kind (NInfix _ _ _) = INFIX"

record store =
  nodes :: "node list"
  ClosureInfo :: "ptr set"
  hasRewritesForKind :: "32 word"

definition node_at :: "store \<Rightarrow> ptr \<Rightarrow> node option" where
  "node_at s p = (if p < length (nodes s) then Some (nodes s ! p) else None)"

text \<open>\<open>Context::HasRewritesFor\<close>: \<open>(hasRewritesForKind & (1<<k)) != 0\<close>.\<close>

definition HasRewritesFor :: "store \<Rightarrow> kind \<Rightarrow> bool" where
  "HasRewritesFor s k \<longleftrightarrow> hasRewritesForKind s AND push_bit (kind_index k) 1 \<noteq> 0"

text \<open>
  \<open>Interpreter::IsClosure\<close>: a prefix whose left is a prefix (the scope, found by
  \<open>ScopeParent\<close>) and which carries \<open>ClosureInfo\<close>. The result is null, or the right of the
  closure together with the scope that the new context, written through the pointer
  \<open>context\<close>, is made of.
\<close>

definition IsClosure :: "store \<Rightarrow> ptr \<Rightarrow> (ptr \<times> ptr) option" where
  "IsClosure s t =
     (case node_at s t of
        Some (NPrefix l r) \<Rightarrow>
          (case node_at s l of
             Some (NPrefix pl pr) \<Rightarrow> if t \<in> ClosureInfo s then Some (r, l) else None
           | _ \<Rightarrow> None)
      | _ \<Rightarrow> None)"

text \<open>\<open>value = new Prefix(scope, value); value->SetInfo(new ClosureInfo);\<close>\<close>

definition new_closure :: "store \<Rightarrow> ptr \<Rightarrow> ptr \<Rightarrow> ptr \<times> store" where
  "new_closure s sc v =
     (let p = length (nodes s)
      in (p, s\<lparr> nodes := nodes s @ [NPrefix sc v], ClosureInfo := insert p (ClosureInfo s) \<rparr>))"

text \<open>
  The end of \<open>MakeClosure\<close>: the value is wrapped in a closure over the current scope unless
  it is a prefix that carries \<open>ClosureInfo\<close>.
\<close>

definition close_value :: "store \<Rightarrow> ptr \<Rightarrow> kind \<Rightarrow> ptr \<Rightarrow> ptr \<times> store" where
  "close_value s sc valueKind v =
     (if valueKind \<noteq> PREFIX \<or> v \<notin> ClosureInfo s then new_closure s sc v else (v, s))"

text \<open>
  \<open>Interpreter::MakeClosure\<close>. \<open>Context::Bound\<close> (context.cpp) is missing and is the
  parameter \<open>Bound\<close>, which reads the store and the scope of the context. Each \<open>goto retry\<close>
  is a recursive call and uses one unit of fuel: a name bound to a name bound to the first
  one makes the code loop for ever, and the result is then \<open>None\<close> for every fuel. A pointer
  to no node has no result either. \<open>IsClosure\<close> sets the context as soon as the bound value
  is a closure, also when the code does not start over.
\<close>

fun MakeClosure ::
  "nat \<Rightarrow> (store \<Rightarrow> ptr \<Rightarrow> ptr \<Rightarrow> ptr option) \<Rightarrow> store \<Rightarrow> ptr \<Rightarrow> ptr \<Rightarrow>
   (ptr \<times> store) option" where
  "MakeClosure 0 Bound s ctx v = None"
| "MakeClosure (Suc fuel) Bound s ctx v =
     (case node_at s v of
        None \<Rightarrow> None
      | Some n \<Rightarrow>
          (let valueKind = node_Kind n in
           if kind_index NAME \<le> kind_index valueKind \<or> HasRewritesFor s valueKind
           then
             (if valueKind = NAME
              then
                (case Bound s ctx v of
                   None \<Rightarrow> Some (close_value s ctx valueKind v)
                 | Some bound \<Rightarrow>
                     (case IsClosure s bound of
                        Some (inside, closed) \<Rightarrow>
                          if v \<noteq> inside then MakeClosure fuel Bound s closed inside
                          else if v \<noteq> bound then MakeClosure fuel Bound s closed bound
                          else Some (close_value s closed valueKind v)
                      | None \<Rightarrow>
                          if v \<noteq> bound then MakeClosure fuel Bound s ctx bound
                          else Some (close_value s ctx valueKind v)))
              else Some (close_value s ctx valueKind v))
           else Some (v, s)))"

text \<open>
  A value that is already a closure, as \<open>MakeClosure\<close> tests it: a prefix that carries
  \<open>ClosureInfo\<close>. A plain constant: a leaf below \<open>NAME\<close> of a kind for which no rewrite
  was declared.
\<close>

definition is_closure_value :: "store \<Rightarrow> ptr \<Rightarrow> bool" where
  "is_closure_value s v \<longleftrightarrow> (\<exists>l r. node_at s v = Some (NPrefix l r)) \<and> v \<in> ClosureInfo s"

definition is_plain_constant :: "store \<Rightarrow> ptr \<Rightarrow> bool" where
  "is_plain_constant s v \<longleftrightarrow>
     (\<exists>n. node_at s v = Some n \<and> kind_index (node_Kind n) < kind_index NAME
           \<and> \<not> HasRewritesFor s (node_Kind n))"

text \<open>
  The reading of the specification for a value that is already a closure: the inner value
  is wrapped again, in a new closure over the current scope, when the closed-over scope
  differs from the current scope, and the closure is returned as it is when they are the
  same.
\<close>

definition closure_of_closure_spec :: "store \<Rightarrow> ptr \<Rightarrow> ptr \<Rightarrow> (ptr \<times> store) option" where
  "closure_of_closure_spec s ctx v =
     (case IsClosure s v of
        Some (inside, closed) \<Rightarrow>
          if closed \<noteq> ctx then Some (new_closure s ctx inside) else Some (v, s)
      | None \<Rightarrow> None)"

subsection \<open>Concrete inputs for the closures\<close>

text \<open>
  A store with an empty name (0), a scope (1), a scope inside it (2), the integer 42 (3) and
  the closure of 42 over the scope 1 (4); rewrites were declared for integers.
\<close>

definition example_store :: store where
  "example_store =
     \<lparr> nodes = [NName [], NPrefix 0 0, NPrefix 1 0, NInteger 42, NPrefix 1 3],
       ClosureInfo = {4},
       hasRewritesForKind = 1 \<rparr>"

definition no_Bound :: "store \<Rightarrow> ptr \<Rightarrow> ptr \<Rightarrow> ptr option" where
  "no_Bound s sc v = None"

section \<open>The parser (\<open>Parser::Parse\<close>)\<close>

text \<open>
  Modelled from the spec: the classes \<open>Error\<close> and \<open>Errors\<close> (errors.h) are missing.
  The parser reports by \<open>errors.Log\<close>; the sink is the list of the errors logged so far,
  oldest first, and an error is the message of the source with its arguments: the expected
  closing delimiter at an unexpected end, the delimiter read and the one expected for
  mismatched parentheses, the expected delimiter for a mismatched indentation, the opening
  text that is no block delimiter, and the name of a token of unknown kind. Positions are
  left out.
\<close>

datatype Error =
    UnexpectedEnd string
  | MismatchedParentheses string string
  | MismatchedIndentation string
  | UnknownParenthese string
  | UnknownToken string

text \<open>
  An entry of the pending stack: opcode, argument and priority. The stack is a list whose
  head is \<open>stack.back()\<close>.
\<close>

datatype Pending = Pending string tree int

text \<open>
  What the parser reads from outside: the option \<open>signedConstants\<close> (false also when
  \<open>Options::options\<close> is null), the child that \<open>new Prefix\<close> is given when the parser of
  a special syntax returns a null tree, and the host of the syntax tables.
\<close>

record parser_options =
  signedConstants :: bool
  null_child :: tree
  syntax_host :: host

text \<open>
  \<open>CreatePrefix\<close>: with signed constants, a unary minus before an integer or real constant
  negates the constant; negating a double flips its sign bit.
\<close>

definition CreatePrefix :: "parser_options \<Rightarrow> tree \<Rightarrow> tree \<Rightarrow> tree" where
  "CreatePrefix opts l r =
     (if signedConstants opts then
        (case l of
           Name n \<Rightarrow>
             if n = ''-'' then
               (case r of
                  Integer iv \<Rightarrow> Integer (- iv)
                | Real rv \<Rightarrow> Real (rv XOR 0x8000000000000000)
                | _ \<Rightarrow> Prefix l r)
             else Prefix l r
         | _ \<Rightarrow> Prefix l r)
      else Prefix l r)"

text \<open>
  The opcode of a pending prefix is the local \<open>prefix\<close>, which stays the empty text.
  \<open>reduce\<close> is the body shared by the four loops that pop the stack: a pending prefix is
  applied to the tree by \<open>CreatePrefix\<close>, a pending infix by \<open>new Infix\<close>.
\<close>

definition prefix_opcode :: string where
  "prefix_opcode = []"

definition reduce :: "parser_options \<Rightarrow> Pending \<Rightarrow> tree \<Rightarrow> tree" where
  "reduce opts prev t =
     (case prev of Pending opc arg prio \<Rightarrow>
        if opc = prefix_opcode then CreatePrefix opts arg t else Infix opc arg t)"

text \<open>
  The loop \<open>while (stack.size())\<close> of the source, met three times with another priority
  and another tree: it stops at the first entry whose priority is not the default one and
  for which \<open>p > (prev.priority & ~1)\<close>, unless the parse is done, and pops the entries
  before it. \<open>unwind\<close> is the last loop, which pops everything.
\<close>

fun flush :: "parser_options \<Rightarrow> int \<Rightarrow> bool \<Rightarrow> int \<Rightarrow> Pending list \<Rightarrow> tree \<Rightarrow> Pending list \<times> tree" where
  "flush opts dflt dn p [] t = ([], t)"
| "flush opts dflt dn p (Pending opc arg prio # st) t =
     (if \<not> dn \<and> prio \<noteq> dflt \<and> p > (prio AND NOT 1)
      then (Pending opc arg prio # st, t)
      else flush opts dflt dn p st (reduce opts (Pending opc arg prio) t))"

fun unwind :: "parser_options \<Rightarrow> Pending list \<Rightarrow> tree \<Rightarrow> tree" where
  "unwind opts [] t = t"
| "unwind opts (prev # st) t = unwind opts st (reduce opts prev t)"

text \<open>
  The local variables of \<open>Parser::Parse\<close> that live across iterations, with the error sink.
  A null tree is \<open>None\<close>. \<open>infix_name\<close> is the local \<open>infix\<close>, \<open>prefix_prio\<close> and
  \<open>infix_prio\<close> are \<open>prefix_priority\<close> and \<open>infix_priority\<close> (the fields of the syntax
  table have these names already), \<open>finished\<close> is \<open>done\<close>.
\<close>

record parser =
  result :: "tree option"
  left :: "tree option"
  right :: "tree option"
  infix_name :: string
  result_priority :: int
  prefix_prio :: int
  infix_prio :: int
  is_expression :: bool
  new_statement :: bool
  blk_opening :: string
  blk_closing :: string
  stack :: "Pending list"
  finished :: bool
  errors :: "Error list"

text \<open>
  \<open>errors.Log\<close> appends to the sink.
\<close>

definition Log :: "Error \<Rightarrow> parser \<Rightarrow> parser" where
  "Log e st = st\<lparr> errors := errors st @ [e] \<rparr>"

text \<open>
  The state at the entry of \<open>Parse(closing)\<close>: inside a block whose closing delimiter has
  an infix priority above the statement priority, the parser is in expression mode at once.
\<close>

definition new_parse :: "Syntax \<Rightarrow> string \<Rightarrow> Error list \<Rightarrow> parser" where
  "new_parse syn closing errs =
     (let T = tables syn;
          paren_priority = InfixPriority syn closing;
          expr = (closing \<noteq> [] \<and> paren_priority > statement_priority T)
      in \<lparr> result = None, left = None, right = None, infix_name = [],
           result_priority = default_priority T, prefix_prio = 0, infix_prio = 0,
           is_expression = expr, new_statement = \<not> expr, blk_opening = [],
           blk_closing = [],
           stack = [], finished = False, errors = errs \<rparr>)"

text \<open>
  The prefix priority of a name, or the function priority when it has none.
\<close>

definition prefix_or_function :: "Syntax \<Rightarrow> string \<Rightarrow> int" where
  "prefix_or_function syn name =
     (let p = PrefixPriority syn name
      in if p = default_priority (tables syn) then function_priority (tables syn) else p)"

text \<open>
  A name or symbol that follows a result and is no right operand of an infix (the last
  branch of \<open>case tokNAME: case tokSYMBOL:\<close>). It is an infix when it has an infix
  priority and, if it has a prefix priority too, when no space stood before it or a space
  stood after it. Otherwise it is a postfix when it has a postfix priority: the stack is
  flushed with that priority, the result becomes the operand of the postfix and the
  postfix the new \<open>right\<close>. Otherwise it is a prefix.
\<close>

definition scan_operator :: "parser_options \<Rightarrow> Syntax \<Rightarrow> token \<Rightarrow> tree \<Rightarrow> parser \<Rightarrow> parser" where
  "scan_operator opts syn t res st =
     (let T = tables syn;
          name = NameValue t;
          infix_p = InfixPriority syn name;
          prefix_vs_infix = PrefixPriority syn name
      in if infix_p \<noteq> default_priority T \<and>
            (prefix_vs_infix = default_priority T \<or> \<not> hadSpaceBefore t \<or> hadSpaceAfter t)
         then st\<lparr> infix_prio := infix_p, left := result st, infix_name := name \<rparr>
         else
           (let postfix_priority = PostfixPriority syn name
            in if postfix_priority \<noteq> default_priority T
               then
                 (let (stk, r) = flush opts (default_priority T) (finished st) postfix_priority
                                   (stack st) res
                  in st\<lparr> infix_prio := infix_p, stack := stk,
                          right := Some (Postfix r (Name name)),
                          prefix_prio := postfix_priority, result := None \<rparr>)
               else
                 (if prefix_vs_infix = default_priority T
                  then st\<lparr> infix_prio := infix_p, right := Some (Name name),
                           prefix_prio := function_priority T,
                           is_expression := (if new_statement st \<and> tok t = tokNAME then False
                                             else is_expression st) \<rparr>
                  else st\<lparr> infix_prio := infix_p, right := Some (Name name),
                           prefix_prio := prefix_vs_infix \<rparr>)))"

text \<open>
  The other branches of \<open>case tokNAME: case tokSYMBOL:\<close>, the special syntax apart (it
  recurses, see \<open>Parse_loop\<close>).
\<close>

definition scan_name :: "parser_options \<Rightarrow> Syntax \<Rightarrow> string \<Rightarrow> token \<Rightarrow> parser \<Rightarrow> parser" where
  "scan_name opts syn closing t st =
     (let name = NameValue t in
      if name = closing then st\<lparr> finished := True \<rparr>
      else
        (case result st of
           None \<Rightarrow>
             st\<lparr> prefix_prio := prefix_or_function syn name, right := Some (Name name),
                 is_expression := (if new_statement st \<and> tok t = tokNAME then False
                                   else is_expression st) \<rparr>
         | Some res \<Rightarrow>
             (if left st \<noteq> None
              then st\<lparr> prefix_prio := prefix_or_function syn name, right := Some (Name name) \<rparr>
              else scan_operator opts syn t res st)))"

text \<open>
  The three kinds of text tokens share their last three statements.
\<close>

definition scan_text :: "Syntax \<Rightarrow> tree \<Rightarrow> parser \<Rightarrow> parser" where
  "scan_text syn txt st =
     st\<lparr> right := Some txt,
         is_expression := (if result st = None \<and> new_statement st then False
                           else is_expression st),
         prefix_prio := function_priority (tables syn) \<rparr>"

text \<open>
  The \<open>switch (tok)\<close> for the tokens that do not open a nested parse. The input here is
  the token as \<open>Parser::NextToken\<close> returns it: comments, long texts and the \<open>syntax\<close>
  directive are dealt with there and never reach the switch. The kinds \<open>tokINDENT\<close> and
  \<open>tokPAROPEN\<close> are handled by \<open>Parse_loop\<close>; \<open>tokNONE\<close> falls to the \<open>default:\<close> label.
\<close>

definition scan_token :: "parser_options \<Rightarrow> Syntax \<Rightarrow> string \<Rightarrow> token \<Rightarrow> parser \<Rightarrow> parser" where
  "scan_token opts syn closing t st =
     (case tok t of
        tokEOF \<Rightarrow>
          (let st1 = st\<lparr> finished := True \<rparr>
           in if closing \<noteq> [] \<and> closing \<noteq> Block_unindent
              then Log (UnexpectedEnd closing) st1 else st1)
      | tokERROR \<Rightarrow>
          (let st1 = st\<lparr> finished := True \<rparr>
           in if closing \<noteq> [] \<and> closing \<noteq> Block_unindent
              then Log (UnexpectedEnd closing) st1 else st1)
      | tokINTEGER \<Rightarrow>
          st\<lparr> right := Some (Integer (IntegerValue t)),
              prefix_prio := function_priority (tables syn) \<rparr>
      | tokREAL \<Rightarrow>
          st\<lparr> right := Some (Real (RealValue t)),
              prefix_prio := function_priority (tables syn) \<rparr>
      | tokLONGSTRING \<Rightarrow> scan_text syn (Text (TextValue t) (openquote t) (closequote t)) st
      | tokSTRING \<Rightarrow>
          (let name = [case TokenText t of [] \<Rightarrow> CHR 0x00 | c # cs \<Rightarrow> c]
           in scan_text syn (Text (TextValue t) name name) st)
      | tokQUOTE \<Rightarrow>
          (let name = [case TokenText t of [] \<Rightarrow> CHR 0x00 | c # cs \<Rightarrow> c]
           in scan_text syn (Text (TextValue t) name name) st)
      | tokNAME \<Rightarrow> scan_name opts syn closing t st
      | tokSYMBOL \<Rightarrow> scan_name opts syn closing t st
      | tokNEWLINE \<Rightarrow>
          st\<lparr> infix_name := [CHR 0x0A], infix_prio := InfixPriority syn [CHR 0x0A],
              left := result st \<rparr>
      | tokPARCLOSE \<Rightarrow>
          (let st1 = (if NameValue t \<noteq> closing
                      then Log (MismatchedParentheses (NameValue t) closing) st
                      else st)
           in st1\<lparr> finished := True \<rparr>)
      | tokUNINDENT \<Rightarrow>
          (let st1 = (if closing \<noteq> Block_unindent
                      then Log (MismatchedIndentation closing) st
                      else st)
           in st1\<lparr> finished := True \<rparr>)
      | tokPAROPEN \<Rightarrow> st
      | tokINDENT \<Rightarrow> st
      | tokNONE \<Rightarrow> Log (UnknownToken (NameValue t)) st)"

text \<open>
  A priority below the statement priority starts a new statement.
\<close>

definition statement_break :: "Syntax \<Rightarrow> int \<Rightarrow> parser \<Rightarrow> parser" where
  "statement_break syn p st =
     (if p < statement_priority (tables syn)
      then st\<lparr> new_statement := True, is_expression := False \<rparr> else st)"

text \<open>
  The second half of an iteration, \<open>if (!result) ... else if (left) ... else if (right)\<close>:
  the first tree parsed becomes the result; an infix is pushed with its left operand after
  the stack was flushed with the infix priority (at the end of the text the flushed tree
  is the result instead); a tree that follows a result makes the result a pending prefix.
\<close>

definition combine :: "parser_options \<Rightarrow> Syntax \<Rightarrow> parser \<Rightarrow> parser" where
  "combine opts syn st =
     (let T = tables syn in
      case result st of
        None \<Rightarrow>
          st\<lparr> result := right st, result_priority := prefix_prio st,
              new_statement := (if right st \<noteq> None \<and> statement_priority T \<le> prefix_prio st
                                then False else new_statement st) \<rparr>
      | Some res \<Rightarrow>
          (case left st of
             Some l \<Rightarrow>
               (let st1 = statement_break syn (infix_prio st) st in
                if prefix_prio st1 \<noteq> default_priority T
                then st1\<lparr> stack := Pending (infix_name st1) l (infix_prio st1) # stack st1,
                          left := None, result := right st1,
                          result_priority := prefix_prio st1 \<rparr>
                else
                  (let (stk, l') = flush opts (default_priority T) (finished st1)
                                     (infix_prio st1) (stack st1) l
                   in if finished st1
                      then st1\<lparr> stack := stk, result := Some l', left := None \<rparr>
                      else st1\<lparr> stack := Pending (infix_name st1) l' (infix_prio st1) # stk,
                                result := None, left := None \<rparr>))
           | None \<Rightarrow>
               (case right st of
                  None \<Rightarrow> st
                | Some r \<Rightarrow>
                    (let st1 = statement_break syn (prefix_prio st) st;
                         (stk, res') =
                           (if prefix_prio st1 \<le> result_priority st1
                            then flush opts (default_priority T) (finished st1)
                                   (result_priority st1) (stack st1) res
                            else (stack st1, res));
                         rp = (if \<not> is_expression st1
                                  \<and> statement_priority T < result_priority st1
                                  \<and> (case stk of [] \<Rightarrow> True
                                       | Pending opc arg prio # below \<Rightarrow>
                                           prio < statement_priority T)
                               then statement_priority T else result_priority st1)
                     in st1\<lparr> stack := Pending prefix_opcode res' rp # stk,
                              result := Some r, result_priority := prefix_prio st1 \<rparr>))))"

text \<open>
  After the loop: a pending entry without a right operand becomes a postfix (or its
  argument alone for a new-line), and the rest of the stack is popped.
\<close>

definition finish :: "parser_options \<Rightarrow> parser \<Rightarrow> tree option" where
  "finish opts st =
     (case stack st of
        [] \<Rightarrow> result st
      | Pending opc arg prio # below \<Rightarrow>
          (case result st of
             Some res \<Rightarrow> Some (unwind opts (stack st) res)
           | None \<Rightarrow>
               Some (unwind opts below
                       (if opc \<noteq> [CHR 0x0A] then Postfix arg (Name opc) else arg))))"

text \<open>
  The head of an iteration.
\<close>

definition next_turn :: "Syntax \<Rightarrow> parser \<Rightarrow> parser" where
  "next_turn syn st =
     st\<lparr> right := None, prefix_prio := default_priority (tables syn),
         infix_prio := default_priority (tables syn) \<rparr>"

text \<open>
  \<open>HasSpecialSyntax\<close> is asked for a name or symbol that is not the closing delimiter.
\<close>

definition special_syntax ::
  "parser_options \<Rightarrow> Syntax \<Rightarrow> string \<Rightarrow> token \<Rightarrow> abort + (ChildSyntax \<times> string) option" where
  "special_syntax opts syn closing t =
     (if (tok t = tokNAME \<or> tok t = tokSYMBOL) \<and> NameValue t \<noteq> closing
      then HasSpecialSyntax (syntax_host opts) syn (NameValue t) else Inr None)"

text \<open>
  \<open>case tokINDENT: case tokPAROPEN:\<close> up to the nested parse. For an indentation the token
  text is \<open>Block::indent\<close>. An opening text that is no block delimiter is logged and
  \<open>blk_closing\<close> keeps its value.
\<close>

definition open_block :: "Syntax \<Rightarrow> token \<Rightarrow> parser \<Rightarrow> parser" where
  "open_block syn t st =
     (let opening = (if tok t = tokINDENT then Block_indent else TokenText t);
          st1 = st\<lparr> blk_opening := opening \<rparr>
      in case IsBlock syn opening of
           Some e \<Rightarrow> st1\<lparr> blk_closing := e \<rparr>
         | None \<Rightarrow> Log (UnknownParenthese opening) st1)"

text \<open>
  After the nested parse: the tree of the nested parse, or an empty name when it is null,
  is wrapped in a block; the nested parse logged into the same sink.
\<close>

definition close_block :: "parser_options \<Rightarrow> Syntax \<Rightarrow> parser \<Rightarrow> parser \<Rightarrow> parser" where
  "close_block opts syn inner st =
     (let r = (case finish opts inner of Some x \<Rightarrow> x | None \<Rightarrow> Name [])
      in st\<lparr> prefix_prio := InfixPriority syn (blk_opening st),
             infix_prio := default_priority (tables syn),
             right := Some (Block r (blk_opening st) (blk_closing st)),
             errors := errors inner \<rparr>)"

text \<open>
  After the parse of a special syntax: the tree of the child parser becomes the argument
  of a prefix whose operator is the name that introduced the syntax. \<open>HasSpecialSyntax\<close>
  has stored the closing delimiter in \<open>blk_closing\<close>.
\<close>

definition close_special ::
  "parser_options \<Rightarrow> string \<Rightarrow> string \<Rightarrow> parser \<Rightarrow> parser \<Rightarrow> parser" where
  "close_special opts name closing' inner st =
     (let r = (case finish opts inner of Some x \<Rightarrow> x | None \<Rightarrow> null_child opts)
      in st\<lparr> blk_closing := closing', right := Some (Prefix (Name name) r),
             errors := errors inner \<rparr>)"

text \<open>
  The loop \<open>while (!done)\<close>. The function returns the state after the loop and the tokens
  left to the caller, or it does not return because an assertion failed. A block and a
  special syntax call \<open>Parse\<close> again on the tokens that follow, with the closing delimiter
  of the block or of the child syntax, and the loop goes on with the tokens that the
  nested parse left. At the end of the list the scanner answers \<open>tokEOF\<close>.
\<close>

function Parse_loop ::
  "parser_options \<Rightarrow> Syntax \<Rightarrow> string \<Rightarrow> parser \<Rightarrow> token list \<Rightarrow>
   abort + parser \<times> token list" where
  "Parse_loop opts syn closing st [] =
     (if finished st then Inr (st, [])
      else Inr (combine opts syn (scan_token opts syn closing eof_token (next_turn syn st)),
                []))"
| "Parse_loop opts syn closing st (t # ts) =
     (if finished st then Inr (st, t # ts)
      else if tok t = tokINDENT \<or> tok t = tokPAROPEN
      then
        (let st1 = open_block syn t (next_turn syn st)
         in case Parse_loop opts syn (blk_closing st1)
                   (new_parse syn (blk_closing st1) (errors st1)) ts of
              Inl a \<Rightarrow> Inl a
            | Inr inner \<Rightarrow>
                Parse_loop opts syn closing
                  (combine opts syn (close_block opts syn (fst inner) st1)) (snd inner))
      else
        (case special_syntax opts syn closing t of
           Inl a \<Rightarrow> Inl a
         | Inr special \<Rightarrow>
             (case special of
                Some cs \<Rightarrow>
                  (case Parse_loop opts (child_syntax (fst cs)) (snd cs)
                          (new_parse (child_syntax (fst cs)) (snd cs) (errors st)) ts of
                     Inl a \<Rightarrow> Inl a
                   | Inr inner \<Rightarrow>
                       Parse_loop opts syn closing
                         (combine opts syn
                            (close_special opts (NameValue t) (snd cs) (fst inner)
                               (next_turn syn st)))
                         (snd inner))
              | None \<Rightarrow>
                  Parse_loop opts syn closing
                    (combine opts syn (scan_token opts syn closing t (next_turn syn st))) ts)))"
  by pat_completeness auto

text \<open>
  A nested parse never returns more tokens than it was given, so every call is on a
  shorter list and the loop terminates.
\<close>

lemma Parse_loop_rest:
  "Parse_loop_dom (opts, syn, closing, st, toks) \<Longrightarrow>
   Parse_loop opts syn closing st toks = Inr r \<Longrightarrow> length (snd r) \<le> length toks"
proof (induction opts syn closing st toks arbitrary: r rule: Parse_loop.pinduct)
  case (1 opts syn closing st)
  then show ?case by (auto simp add: Parse_loop.psimps split: if_splits)
next
  case (2 opts syn closing st t ts)
  note eq = Parse_loop.psimps (2) [OF "2.hyps"]
  show ?case
  proof (cases "finished st")
    case True
    with "2.prems" show ?thesis by (auto simp add: eq)
  next
    case nf: False
    show ?thesis
    proof (cases "tok t = tokINDENT \<or> tok t = tokPAROPEN")
      case blk: True
      define st1 where "st1 = open_block syn t (next_turn syn st)"
      from "2.prems" nf blk obtain inner where
        i: "Parse_loop opts syn (blk_closing st1)
              (new_parse syn (blk_closing st1) (errors st1)) ts = Inr inner"
        and o: "Parse_loop opts syn closing
              (combine opts syn (close_block opts syn (fst inner) st1)) (snd inner) = Inr r"
        by (auto simp add: eq Let_def st1_def [symmetric] split: sum.splits)
      have l1: "length (snd inner) \<le> length ts"
        using "2.IH"(1) [OF nf blk st1_def i] .
      have l2: "length (snd r) \<le> length (snd inner)"
        using "2.IH"(2) [OF nf blk st1_def i o] .
      from l1 l2 show ?thesis by simp
    next
      case nblk: False
      show ?thesis
      proof (cases "special_syntax opts syn closing t")
        case (Inl a)
        with "2.prems" nf nblk show ?thesis by (simp add: eq)
      next
        case (Inr special)
        show ?thesis
        proof (cases special)
          case None
          with "2.prems" nf nblk Inr have
            "Parse_loop opts syn closing
               (combine opts syn (scan_token opts syn closing t (next_turn syn st))) ts = Inr r"
            by (simp add: eq)
          from "2.IH"(3) [OF nf nblk Inr None this] show ?thesis by simp
        next
          case (Some cs)
          from "2.prems" nf nblk Inr Some obtain inner where
            i: "Parse_loop opts (child_syntax (fst cs)) (snd cs)
                  (new_parse (child_syntax (fst cs)) (snd cs) (errors st)) ts = Inr inner"
            and o: "Parse_loop opts syn closing
                     (combine opts syn
                        (close_special opts (NameValue t) (snd cs) (fst inner)
                           (next_turn syn st)))
                     (snd inner) = Inr r"
            by (auto simp add: eq split: sum.splits)
          have l1: "length (snd inner) \<le> length ts"
            using "2.IH"(4) [OF nf nblk Inr Some i] .
          have l2: "length (snd r) \<le> length (snd inner)"
            using "2.IH"(5) [OF nf nblk Inr Some i o] .
          from l1 l2 show ?thesis by simp
        qed
      qed
    qed
  qed
qed

termination Parse_loop
proof (relation "measure (\<lambda>(opts, syn, closing, st, toks). length toks)", goal_cases)
  case 1
  show ?case by simp
next
  case 2
  then show ?case by simp
next
  case 3
  then show ?case by (auto dest: Parse_loop_rest)
next
  case 4
  then show ?case by simp
next
  case 5
  then show ?case by simp
next
  case 6
  then show ?case by (auto dest: Parse_loop_rest)
qed

text \<open>
  \<open>Parser::Parse\<close>: when it returns, the tree returned (\<open>None\<close> for null), the tokens left
  and the error sink.
\<close>

definition Parse ::
  "parser_options \<Rightarrow> Syntax \<Rightarrow> string \<Rightarrow> Error list \<Rightarrow> token list \<Rightarrow>
   abort + tree option \<times> token list \<times> Error list" where
  "Parse opts syn closing errs toks =
     (case Parse_loop opts syn closing (new_parse syn closing errs) toks of
        Inl a \<Rightarrow> Inl a
      | Inr r \<Rightarrow> Inr (finish opts (fst r), snd r, errors (fst r)))"

text \<open>
  A symbol with white space on both sides.
\<close>

definition spaced_symbol :: "string \<Rightarrow> token" where
  "spaced_symbol n =
     eof_token\<lparr> tok := tokSYMBOL, NameValue := n, TextValue := n, TokenText := n,
                hadSpaceBefore := True, hadSpaceAfter := True \<rparr>"

text \<open>
  The text \<open>a + b + c\<close>.
\<close>

definition a_plus_b_plus_c :: "token list" where
  "a_plus_b_plus_c =
     [name_token ''a'', spaced_symbol ''+'', name_token ''b'', spaced_symbol ''+'',
      name_token ''c'']"

subsection \<open>How an operator was taken\<close>

text \<open>
  What the parser made of a name or symbol that followed a result, read from the state
  after the \<open>switch\<close>: an infix when \<open>left\<close> was set, a postfix when \<open>right\<close> is a postfix
  node, a prefix when \<open>right\<close> is the bare name.
\<close>

datatype operator_use = AsInfix | AsPostfix | AsPrefix

definition treated_as :: "parser \<Rightarrow> operator_use" where
  "treated_as st =
     (if left st \<noteq> None then AsInfix
      else case right st of
             Some (Postfix l r) \<Rightarrow> AsPostfix
           | _ \<Rightarrow> AsPrefix)"

text \<open>
  The rule as the specification words it: an infix if an infix priority is defined and
  either no prefix priority is defined or there was no space before the token but there
  is space after it; else a postfix if a postfix priority is defined; else a prefix.
\<close>

definition discriminate_spec :: "Syntax \<Rightarrow> token \<Rightarrow> operator_use" where
  "discriminate_spec syn t =
     (let d = default_priority (tables syn); n = NameValue t
      in if InfixPriority syn n \<noteq> d \<and>
            (PrefixPriority syn n = d \<or> (\<not> hadSpaceBefore t \<and> hadSpaceAfter t))
         then AsInfix
         else if PostfixPriority syn n \<noteq> d then AsPostfix
         else AsPrefix)"

subsection \<open>Concrete inputs for the parser\<close>

text \<open>
  A syntax in which \<open>+\<close> is an infix of priority \<open>p\<close>, \<open>-\<close> is an infix of priority 300
  and a prefix of priority 400, \<open>!\<close> is a postfix of priority 450, and round parentheses
  delimit a block.
\<close>

definition example_tables :: "int \<Rightarrow> syntax_tables" where
  "example_tables p =
     empty_tables
       \<lparr> prefix_priority := [''-'' \<mapsto> 400],
         infix_priority := [''+'' \<mapsto> p, ''-'' \<mapsto> 300, ''('' \<mapsto> 500, '')'' \<mapsto> 500],
         postfix_priority := [''!'' \<mapsto> 450],
         block_delimiters := [''('' \<mapsto> '')'', '')'' \<mapsto> []] \<rparr>"

definition example_syntax :: "int \<Rightarrow> Syntax" where
  "example_syntax p = Syntax (example_tables p) Map.empty Map.empty"

definition example_options :: parser_options where
  "example_options =
     \<lparr> signedConstants = False, null_child = Name [], syntax_host = example_host \<rparr>"

text \<open>
  A syntax in which \<open>asm\<close> introduces the special syntax of a file for which no child
  syntax is stored.
\<close>

definition dangling_syntax :: Syntax where
  "dangling_syntax = Syntax (example_tables 300) [''asm'' \<mapsto> ''asm.syntax''] Map.empty"

definition paren_token :: "token_t \<Rightarrow> string \<Rightarrow> token" where
  "paren_token k n = eof_token\<lparr> tok := k, NameValue := n, TextValue := n, TokenText := n \<rparr>"

text \<open>
  The parser after it read the name \<open>a\<close>, at top level and inside round parentheses.
\<close>

definition after_a :: parser where
  "after_a = (new_parse (example_syntax 300) [] [])\<lparr> result := Some (Name ''a'') \<rparr>"

definition after_open_a :: parser where
  "after_open_a = (new_parse (example_syntax 300) '')'' [])\<lparr> result := Some (Name ''a'') \<rparr>"

section \<open>Verified properties\<close>

subsection \<open>The helpers of context.h\<close>

text \<open>
  C6. The claim says that \<open>RewriteDefined\<close> removes every combination of a guard, a type
  annotation and an enclosing block around the defined form. The function makes one pass:
  at most one \<open>as\<close> or \<open>:\<close> annotation, then at most one \<open>when\<close> guard, then at most one
  block, in that order. A guard written outside a type annotation is removed and the
  annotation under it stays: for \<open>(X as integer) when C\<close> the result is \<open>X as integer\<close>,
  where the reading of the specification gives \<open>X\<close>.
\<close>

theorem RewriteDefined_keeps_annotation_under_guard:
  "RewriteDefined (Infix ''when'' (Infix ''as'' (Name ''X'') (Name ''integer'')) (Name ''C''))
     = Infix ''as'' (Name ''X'') (Name ''integer'')
   \<and> defined_form_spec
        (Infix ''when'' (Infix ''as'' (Name ''X'') (Name ''integer'')) (Name ''C''))
     = Name ''X''"
  by (simp add: RewriteDefined_def)

text \<open>
  What \<open>RewriteDefined\<close> leaves alone: a tree that is no type annotation, no guard and no
  block is returned as it is; under a guard, and under a type annotation, whatever is not
  of the shape tested next is returned as it is.
\<close>

lemma RewriteDefined_plain:
  "\<not> is_type_annotation X \<Longrightarrow> \<not> is_guard X \<Longrightarrow> \<not> is_block X \<Longrightarrow> RewriteDefined X = X"
  by (cases X) (auto simp add: RewriteDefined_def is_type_annotation_def is_guard_def is_block_def)

lemma RewriteDefined_under_guard:
  "\<not> is_block X \<Longrightarrow> RewriteDefined (Infix ''when'' X G) = X"
  by (cases X) (simp_all add: RewriteDefined_def is_block_def)

lemma RewriteDefined_under_type:
  "tn = ''as'' \<or> tn = '':'' \<Longrightarrow> \<not> is_guard X \<Longrightarrow> \<not> is_block X \<Longrightarrow>
   RewriteDefined (Infix tn X T) = X"
  by (cases X) (auto simp add: RewriteDefined_def is_guard_def is_block_def)

lemma RewriteDefined_under_type_and_guard:
  "tn = ''as'' \<or> tn = '':'' \<Longrightarrow> \<not> is_block X \<Longrightarrow>
   RewriteDefined (Infix tn (Infix ''when'' X G) T) = X"
  by (cases X) (auto simp add: RewriteDefined_def is_block_def)

text \<open>
  \<open>RewriteDefined\<close> removes nothing that the reading of the specification keeps.
\<close>

lemma RewriteDefined_within_spec:
  "defined_form_spec (RewriteDefined P) = defined_form_spec P"
  by (auto simp add: RewriteDefined_def split: tree.splits)

text \<open>
  C6, as amended. \<open>RewriteDefined\<close> makes a single pass: it removes at most one \<open>as\<close> or
  \<open>:\<close> annotation, then at most one \<open>when\<close> guard, then at most one block, in that order,
  and returns what remains, whatever it is. The eight cases cover every tree. A tree that
  is no annotation, no guard and no block (a name, a literal, a prefix, a postfix, another
  infix) is returned unchanged. The child of a block is returned as it is, be it a block or
  an annotation again. What stands under a guard is returned as it is unless it is a block,
  so that a type annotation or a second guard under a guard stays. What stands under a
  type annotation is returned as it is unless it is a guard or a block, so that a second
  type annotation stays.
\<close>

theorem RewriteDefined_single_pass:
  assumes "tn = ''as'' \<or> tn = '':''"
  shows "(\<not> is_type_annotation X \<and> \<not> is_guard X \<and> \<not> is_block X \<longrightarrow> RewriteDefined X = X)
   \<and> RewriteDefined (Block D opening closing) = D
   \<and> RewriteDefined (Infix ''when'' (Block D opening closing) G) = D
   \<and> (\<not> is_block X \<longrightarrow> RewriteDefined (Infix ''when'' X G) = X)
   \<and> RewriteDefined (Infix tn (Block D opening closing) T) = D
   \<and> RewriteDefined (Infix tn (Infix ''when'' (Block D opening closing) G) T) = D
   \<and> (\<not> is_block X \<longrightarrow> RewriteDefined (Infix tn (Infix ''when'' X G) T) = X)
   \<and> (\<not> is_guard X \<and> \<not> is_block X \<longrightarrow> RewriteDefined (Infix tn X T) = X)"
proof (intro conjI impI)
  assume "\<not> is_type_annotation X \<and> \<not> is_guard X \<and> \<not> is_block X"
  then show "RewriteDefined X = X" by (simp add: RewriteDefined_plain)
next
  show "RewriteDefined (Block D opening closing) = D"
    by (simp add: RewriteDefined_def)
next
  show "RewriteDefined (Infix ''when'' (Block D opening closing) G) = D"
    by (simp add: RewriteDefined_def)
next
  assume "\<not> is_block X"
  then show "RewriteDefined (Infix ''when'' X G) = X" by (rule RewriteDefined_under_guard)
next
  show "RewriteDefined (Infix tn (Block D opening closing) T) = D"
    using assms by (auto simp add: RewriteDefined_def)
next
  show "RewriteDefined (Infix tn (Infix ''when'' (Block D opening closing) G) T) = D"
    using assms by (auto simp add: RewriteDefined_def)
next
  assume "\<not> is_block X"
  with assms show "RewriteDefined (Infix tn (Infix ''when'' X G) T) = X"
    by (rule RewriteDefined_under_type_and_guard)
next
  assume "\<not> is_guard X \<and> \<not> is_block X"
  with assms show "RewriteDefined (Infix tn X T) = X"
    by (simp add: RewriteDefined_under_type)
qed

theorem RewriteDefined_single_pass_witness:
  "RewriteDefined (Infix ''+'' (Name ''A'') (Name ''B'')) = Infix ''+'' (Name ''A'') (Name ''B'')
   \<and> RewriteDefined (Infix ''when'' (Infix ''+'' (Name ''A'') (Name ''B'')) (Name ''C''))
       = Infix ''+'' (Name ''A'') (Name ''B'')
   \<and> RewriteDefined (Infix '':'' (Infix ''when'' (Infix ''+'' (Name ''A'') (Name ''B'')) (Name ''C''))
        (Name ''integer''))
       = Infix ''+'' (Name ''A'') (Name ''B'')
   \<and> RewriteDefined (Infix '':'' (Infix ''+'' (Name ''A'') (Name ''B'')) (Name ''integer''))
       = Infix ''+'' (Name ''A'') (Name ''B'')
   \<and> RewriteDefined (Infix ''when'' (Infix ''as'' (Name ''X'') (Name ''integer'')) (Name ''C''))
       = Infix ''as'' (Name ''X'') (Name ''integer'')
   \<and> RewriteDefined (Infix ''as'' (Infix ''as'' (Name ''X'') (Name ''integer'')) (Name ''real''))
       = Infix ''as'' (Name ''X'') (Name ''integer'')
   \<and> RewriteDefined (Infix ''as'' (Infix ''when'' (Infix ''when'' (Name ''X'') (Name ''C''))
        (Name ''D'')) (Name ''real''))
       = Infix ''when'' (Name ''X'') (Name ''C'')
   \<and> RewriteDefined (Block (Block (Name ''X'') ''('' '')'') ''('' '')'')
       = Block (Name ''X'') ''('' '')''"
  using RewriteDefined_single_pass [of "'':''" "Infix ''+'' (Name ''A'') (Name ''B'')"
          "Name ''A''" "[]" "[]" "Name ''C''" "Name ''integer''"]
        RewriteDefined_single_pass [of "''as''" "Infix ''as'' (Name ''X'') (Name ''integer'')"
          "Block (Name ''X'') ''('' '')''" "''(''" "'')''" "Name ''C''" "Name ''real''"]
        RewriteDefined_single_pass [of "''as''" "Infix ''when'' (Name ''X'') (Name ''C'')"
          "Name ''A''" "[]" "[]" "Name ''D''" "Name ''real''"]
  by (simp add: is_type_annotation_def is_guard_def is_block_def)

text \<open>
  With a 32-bit \<open>unsigned long\<close>, which the constant 31 presupposes, \<open>Rehash\<close> is the
  rotation to the right by one bit, and a bijection.
\<close>

lemma Rehash_ulong32_rotation: "Rehash (h :: ulong32) = word_rotr 1 h"
proof (rule bit_word_eqI)
  fix n assume n: "n < LENGTH(32)"
  show "bit (Rehash h) n = bit (word_rotr 1 h) n"
  proof (cases "n = 31")
    case True
    then show ?thesis
      by (auto simp add: Rehash_def bit_simps bit_word_rotr_iff dest: bit_imp_le_length)
  next
    case False
    with n have "n < 31" by simp
    then show ?thesis
      by (auto simp add: Rehash_def bit_simps bit_word_rotr_iff)
  qed
qed

lemma Rehash_ulong32_bij: "bij (Rehash :: ulong32 \<Rightarrow> ulong32)"
proof -
  have eq: "(Rehash :: ulong32 \<Rightarrow> ulong32) = word_rotr 1"
    by (rule ext) (rule Rehash_ulong32_rotation)
  have "bij (word_rotr 1 :: ulong32 \<Rightarrow> ulong32)"
    by (rule bij_betw_byWitness [where f' = "word_rotl 1"])
       (simp_all add: word_rot_lr word_rot_rl)
  with eq show ?thesis by simp
qed

lemma Rehash_ulong64_not_inj: "\<not> inj (Rehash :: ulong64 \<Rightarrow> ulong64)"
proof
  assume "inj (Rehash :: ulong64 \<Rightarrow> ulong64)"
  then have "(4294967296 :: ulong64) = 4294967297"
    by (rule injD) (simp add: Rehash_def)
  then show False by simp
qed

text \<open>
  C7. The claim says that \<open>Rehash\<close> rotates every hash value to the right by one bit and
  is a bijection on the hash domain. Where \<open>unsigned long\<close> has 64 bits, the left shift by
  31 does not bring bit 0 to the top bit: \<open>Rehash 2\<close> is \<open>2^32 + 1\<close> and not the rotation
  \<open>1\<close>, and the two hash values \<open>2^32\<close> and \<open>2^32 + 1\<close> have the same image.
\<close>

theorem Rehash_ulong64_not_rotation:
  "Rehash (2 :: ulong64) = 4294967297
   \<and> word_rotr 1 (2 :: ulong64) = 1
   \<and> Rehash (4294967296 :: ulong64) = Rehash (4294967297 :: ulong64)"
  by code_simp

subsection \<open>The syntax reader\<close>

lemma read_name_entry:
  "\<not> section_keyword (virtual_delimiter txt) \<Longrightarrow>
   read_name h txt r = read_entry h (virtual_delimiter txt) r"
  by (simp add: read_name_def section_keyword_def)

lemma read_token_inBlock:
  assumes "state r = inBlock" and "entry_token ta"
    and "\<not> section_keyword (virtual_delimiter (TextValue ta))"
  shows "read_token h ta r =
    (update_tables (\<lambda>T. (add_known_token (TextValue ta) T)
        \<lparr> infix_priority :=
             (infix_priority T)(virtual_delimiter (TextValue ta) \<mapsto> priority r) \<rparr>) r)
      \<lparr> entry := virtual_delimiter (TextValue ta), state := inBlockDef \<rparr>"
  using assms
  by (auto simp add: read_token_def entry_token_def read_name_entry read_entry_def
        update_tables_def add_known_token_def)

lemma read_token_inBlockDef:
  assumes "state r = inBlockDef" and "entry_token tb"
    and "\<not> section_keyword (virtual_delimiter (TextValue tb))"
  shows "read_token h tb r =
    (update_tables (\<lambda>T. (add_known_token (TextValue tb) T)
        \<lparr> block_delimiters :=
             (block_delimiters T)(entry r \<mapsto> virtual_delimiter (TextValue tb),
                                  virtual_delimiter (TextValue tb) \<mapsto> []),
           infix_priority :=
             (infix_priority T)(virtual_delimiter (TextValue tb) \<mapsto> priority r) \<rparr>) r)
      \<lparr> state := inBlock \<rparr>"
  using assms
  by (auto simp add: read_token_def entry_token_def read_name_entry read_entry_def
        update_tables_def add_known_token_def)

text \<open>
  C10. In the section \<open>BLOCK\<close>, let two entry tokens follow each other whose texts, once
  the virtual names \<open>NEWLINE\<close>, \<open>INDENT\<close> and \<open>UNINDENT\<close> are replaced by their
  delimiters, are an opening delimiter \<open>a\<close> and a closing delimiter \<open>b\<close>, two different
  texts that are not section keywords. After the two tokens \<open>block_delimiters\<close> maps \<open>a\<close>
  to \<open>b\<close> and \<open>b\<close> to the empty string, so that \<open>IsBlock\<close> answers true for \<open>a\<close> with the
  closing \<open>b\<close> and true for \<open>b\<close> with an empty closing; \<open>infix_priority\<close> maps both \<open>a\<close>
  and \<open>b\<close> to the current priority of the section, and the reader is back in the section
  \<open>BLOCK\<close>. The witness also reads the syntax file \<open>BLOCK 25 ( )\<close> from its start.
\<close>

theorem BLOCK_entry:
  assumes "state r = inBlock"
    and "entry_token ta" and "entry_token tb"
    and "\<not> section_keyword (virtual_delimiter (TextValue ta))"
    and "\<not> section_keyword (virtual_delimiter (TextValue tb))"
    and "virtual_delimiter (TextValue ta) \<noteq> virtual_delimiter (TextValue tb)"
  shows "let a = virtual_delimiter (TextValue ta); b = virtual_delimiter (TextValue tb);
             r' = read_token h tb (read_token h ta r); T = tables (this r')
         in block_delimiters T a = Some b
          \<and> block_delimiters T b = Some []
          \<and> IsBlock (this r') a = Some b
          \<and> IsBlock (this r') b = Some []
          \<and> infix_priority T a = Some (priority r)
          \<and> infix_priority T b = Some (priority r)
          \<and> state r' = inBlock"
proof -
  define r1 where "r1 = read_token h ta r"
  have r1: "r1 = (update_tables (\<lambda>T. (add_known_token (TextValue ta) T)
        \<lparr> infix_priority :=
             (infix_priority T)(virtual_delimiter (TextValue ta) \<mapsto> priority r) \<rparr>) r)
      \<lparr> entry := virtual_delimiter (TextValue ta), state := inBlockDef \<rparr>"
    unfolding r1_def using assms by (simp add: read_token_inBlock)
  have s1: "state r1 = inBlockDef" and e1: "entry r1 = virtual_delimiter (TextValue ta)"
    and p1: "priority r1 = priority r"
    by (simp_all add: r1 update_tables_def)
  have i1: "infix_priority (tables (this r1)) (virtual_delimiter (TextValue ta))
              = Some (priority r)"
    by (simp add: r1 update_tables_def add_known_token_def)
  have r2: "read_token h tb r1 = (update_tables (\<lambda>T. (add_known_token (TextValue tb) T)
        \<lparr> block_delimiters :=
             (block_delimiters T)(entry r1 \<mapsto> virtual_delimiter (TextValue tb),
                                  virtual_delimiter (TextValue tb) \<mapsto> []),
           infix_priority :=
             (infix_priority T)(virtual_delimiter (TextValue tb) \<mapsto> priority r1) \<rparr>) r1)
      \<lparr> state := inBlock \<rparr>"
    using s1 assms by (simp add: read_token_inBlockDef)
  show ?thesis
    unfolding Let_def r1_def [symmetric] r2
    using i1 assms(6) by (simp add: update_tables_def add_known_token_def IsBlock_def e1 p1)
qed

theorem BLOCK_entry_witness:
  "state block_reader = inBlock
   \<and> entry_token (name_token ''('') \<and> entry_token (name_token '')'')
   \<and> \<not> section_keyword (virtual_delimiter (TextValue (name_token ''('')))
   \<and> \<not> section_keyword (virtual_delimiter (TextValue (name_token '')'')))
   \<and> virtual_delimiter (TextValue (name_token ''('')) \<noteq>
       virtual_delimiter (TextValue (name_token '')''))
   \<and> (let r' = read_token example_host (name_token '')'')
                  (read_token example_host (name_token ''('') block_reader);
            T = tables (this r')
        in block_delimiters T ''('' = Some '')''
         \<and> block_delimiters T '')'' = Some []
         \<and> IsBlock (this r') ''('' = Some '')''
         \<and> IsBlock (this r') '')'' = Some []
         \<and> infix_priority T ''('' = Some 25
         \<and> infix_priority T '')'' = Some 25
         \<and> state r' = inBlock)
   \<and> (let s = fst (ReadSyntaxFile example_host empty_Syntax
                     [name_token ''BLOCK'', integer_token 25, name_token ''('', name_token '')'']
                     0)
        in IsBlock s ''('' = Some '')'' \<and> IsBlock s '')'' = Some []
         \<and> infix_priority (tables s) ''('' = Some 25
         \<and> infix_priority (tables s) '')'' = Some 25)"
proof -
  have h: "state block_reader = inBlock"
    "entry_token (name_token ''('')" "entry_token (name_token '')'')"
    "\<not> section_keyword (virtual_delimiter (TextValue (name_token ''('')))"
    "\<not> section_keyword (virtual_delimiter (TextValue (name_token '')'')))"
    "virtual_delimiter (TextValue (name_token ''('')) \<noteq>
       virtual_delimiter (TextValue (name_token '')''))"
    by (simp_all add: block_reader_def entry_token_def name_token_def eof_token_def
          section_keyword_def virtual_delimiter_def)
  have v: "virtual_delimiter (TextValue (name_token ''('')) = ''(''"
    "virtual_delimiter (TextValue (name_token '')'')) = '')''"
    "priority block_reader = 25"
    by (simp_all add: name_token_def eof_token_def virtual_delimiter_def block_reader_def)
  have f: "(let s = fst (ReadSyntaxFile example_host empty_Syntax
                     [name_token ''BLOCK'', integer_token 25, name_token ''('', name_token '')'']
                     0)
        in IsBlock s ''('' = Some '')'' \<and> IsBlock s '')'' = Some []
         \<and> infix_priority (tables s) ''('' = Some 25
         \<and> infix_priority (tables s) '')'' = Some 25)"
    by code_simp
  from BLOCK_entry [OF h, of example_host] h f show ?thesis
    by (simp add: Let_def v)
qed

subsection \<open>The rewrite-call binder\<close>

text \<open>
  A name that the context has bound to another node, be it a name of the same spelling:
  when the binding does not fail, the candidate gets no new binding, and the equality of
  the value and the name is its new runtime condition.
\<close>

lemma ValueType_lists:
  "bindings (snd (ValueType ops v rc)) = bindings rc"
  "conditions (snd (ValueType ops v rc)) = conditions rc"
  by (simp_all add: ValueType_def split_beta split: option.splits)

lemma Unify_lists:
  "bindings (snd (Unify ops vt ft v form rc)) = bindings rc"
  "conditions (snd (Unify ops vt ft v form rc)) = conditions rc"
  by (simp_all add: Unify_def Let_def split_beta KindCondition_def)

lemma bind_name_bound_to_other_node:
  assumes "RewriteDefined (fst (snd (rewrite rc))) \<noteq> form"
    and "context_Bound ops form (world (snd (ValueType ops v rc))) = Some (OtherNode bound)"
    and "fst (bind_name ops form v rc) \<noteq> FAILED"
  shows "fst (bind_name ops form v rc) = POSSIBLE"
    and "bindings (snd (bind_name ops form v rc)) = bindings rc"
    and "conditions (snd (bind_name ops form v rc)) = conditions rc @ [(v, form)]"
  using assms
  by (auto simp add: bind_name_def bind_name_type_def Let_def split_beta Condition_def
        ValueType_lists Unify_lists split: if_splits)

text \<open>
  C3. The claim gives three cases for a literal form: same kind and equal value,
  \<open>PERFECT\<close>; the type of the value unifies with the type of the literal, \<open>POSSIBLE\<close>
  with a runtime condition; otherwise \<open>FAILED\<close>. For the form \<open>1\<close> and the value \<open>2\<close> the
  type of the value is \<open>integer\<close> and unifies with the type of the literal, and \<open>Bind\<close>
  returns \<open>FAILED\<close>: a value that is a literal of the same kind is decided by the
  comparison alone.
\<close>

theorem Bind_unequal_literal_FAILED:
  "fst (Bind literal_ops (Integer 1) (Integer 2) factorial_candidate) = FAILED
   \<and> fst (Unify literal_ops (fst (ValueType literal_ops (Integer 2) factorial_candidate))
            (Some integer_type) (Integer 2) (Integer 1)
            (snd (ValueType literal_ops (Integer 2) factorial_candidate)))"
  by (simp add: Unify_def ValueType_def literal_ops_def literal_Type_def integer_type_def
        tree_type_def)

text \<open>
  C3, as amended. \<open>Bind\<close> of a literal form against a value that is a literal of the same
  kind returns \<open>PERFECT\<close> when the two values are equal and \<open>FAILED\<close> when they are not,
  and changes nothing. Against a value of another kind, it takes the type of the value and
  unifies it with the type of the literal: on success it appends the runtime condition
  (value, form) and returns \<open>POSSIBLE\<close>, otherwise it returns \<open>FAILED\<close>.
\<close>

theorem Bind_literal:
  "Bind ops (Integer f) (Integer iv) rc = (if iv = f then PERFECT else FAILED, rc)
   \<and> Bind ops (Real g) (Real rv) rc = (if double_eq rv g then PERFECT else FAILED, rc)
   \<and> Bind ops (Text t opening closing) (Text tv vopening vclosing) rc
       = (if tv = t then PERFECT else FAILED, rc)
   \<and> (Kind v \<noteq> INTEGER \<longrightarrow>
        (let (type, rc1) = ValueType ops v rc;
             (ok, rc2) = Unify ops type (Some integer_type) v (Integer f) rc1
         in Bind ops (Integer f) v rc
            = (if ok then (POSSIBLE, rc2\<lparr> conditions := conditions rc2 @ [(v, Integer f)] \<rparr>)
               else (FAILED, rc2))))
   \<and> (Kind v \<noteq> REAL \<longrightarrow>
        (let (type, rc1) = ValueType ops v rc;
             (ok, rc2) = Unify ops type (Some real_type) v (Real g) rc1
         in Bind ops (Real g) v rc
            = (if ok then (POSSIBLE, rc2\<lparr> conditions := conditions rc2 @ [(v, Real g)] \<rparr>)
               else (FAILED, rc2))))
   \<and> (Kind v \<noteq> TEXT \<longrightarrow>
        (let (type, rc1) = ValueType ops v rc;
             (ok, rc2) = Unify ops type (Some text_type) v (Text t opening closing) rc1
         in Bind ops (Text t opening closing) v rc
            = (if ok then (POSSIBLE,
                           rc2\<lparr> conditions := conditions rc2 @ [(v, Text t opening closing)] \<rparr>)
               else (FAILED, rc2))))"
  by (cases v) (simp_all add: bind_constant_def Condition_def split_beta Let_def)

theorem Bind_literal_witness:
  "Kind (Name ''x'') \<noteq> INTEGER \<and> Kind (Name ''x'') \<noteq> REAL \<and> Kind (Name ''x'') \<noteq> TEXT
   \<and> Bind literal_ops (Integer 1) (Integer 1) factorial_candidate
       = (PERFECT, factorial_candidate)
   \<and> fst (Bind literal_ops (Integer 1) (Name ''x'') factorial_candidate) = POSSIBLE
   \<and> conditions (snd (Bind literal_ops (Integer 1) (Name ''x'') factorial_candidate))
       = [(Name ''x'', Integer 1)]
   \<and> fst (Bind literal_ops (Real 0) (Name ''x'') factorial_candidate) = POSSIBLE
   \<and> fst (Bind literal_ops (Text ''a'' ''<<'' ''>>'') (Name ''x'') factorial_candidate)
       = POSSIBLE
   \<and> fst (Bind literal_ops (Integer 1) (Text ''a'' ''<<'' ''>>'') factorial_candidate)
       = FAILED"
proof -
  have k: "Kind (Name ''x'') \<noteq> INTEGER" "Kind (Name ''x'') \<noteq> REAL"
    "Kind (Name ''x'') \<noteq> TEXT" "Kind (Text ''a'' ''<<'' ''>>'') \<noteq> INTEGER"
    by simp_all
  have v: "ValueType literal_ops (Name ''x'') factorial_candidate
             = (Some tree_type, factorial_candidate)"
    "ValueType literal_ops (Text ''a'' ''<<'' ''>>'') factorial_candidate
             = (Some text_type, factorial_candidate)"
    by (simp_all add: ValueType_def literal_ops_def literal_Type_def)
  have u: "fst (Unify literal_ops (Some tree_type) (Some integer_type) (Name ''x'') (Integer 1)
                  factorial_candidate)"
    "fst (Unify literal_ops (Some tree_type) (Some real_type) (Name ''x'') (Real 0)
            factorial_candidate)"
    "fst (Unify literal_ops (Some tree_type) (Some text_type) (Name ''x'')
            (Text ''a'' ''<<'' ''>>'') factorial_candidate)"
    "\<not> fst (Unify literal_ops (Some text_type) (Some integer_type) (Text ''a'' ''<<'' ''>>'')
              (Integer 1) factorial_candidate)"
    by (simp_all add: Unify_def literal_ops_def Let_def split_beta tree_type_def
          integer_type_def real_type_def text_type_def)
  have c: "conditions (snd (Unify literal_ops (Some tree_type) (Some integer_type) (Name ''x'')
                  (Integer 1) factorial_candidate)) = []"
    by (simp add: Unify_def literal_ops_def Let_def split_beta KindCondition_def
          factorial_candidate_def new_RewriteCandidate_def)
  from Bind_literal [of literal_ops 1 1 factorial_candidate 0 0 "''a''" "''<<''" "''>>''"
         "''a''" "''<<''" "''>>''" "Name ''x''"]
       Bind_literal [of literal_ops 1 1 factorial_candidate 0 0 "''a''" "''<<''" "''>>''"
         "''a''" "''<<''" "''>>''" "Text ''a'' ''<<'' ''>>''"]
       k v u c
  show ?thesis
    by (simp add: split_beta Let_def)
qed

text \<open>
  C8. Binding a guarded form \<open>F when G\<close> never returns \<open>PERFECT\<close>. It fails when binding
  \<open>F\<close> fails. It returns \<open>POSSIBLE\<close> exactly when binding \<open>F\<close> did not fail, the guard has
  a type, and this type unifies with \<open>boolean\<close>; then the last runtime condition of the
  candidate is that \<open>G\<close> evaluates to \<open>true\<close>.
\<close>

theorem Bind_when_at_most_POSSIBLE:
  "let (b, rc1) = Bind ops F v rc;
       (gt, w2) = btypes_Type ops G (world rc1);
       (guardType, w3) = btypes_Type ops G w2;
       (ok, rc4) = Unify ops guardType (Some boolean_type) G F (rc1\<lparr> world := w3 \<rparr>);
       (result, rc') = Bind ops (Infix ''when'' F G) v rc
   in result \<noteq> PERFECT
    \<and> (b = FAILED \<longrightarrow> result = FAILED)
    \<and> (result = POSSIBLE \<longleftrightarrow> b \<noteq> FAILED \<and> gt \<noteq> None \<and> ok)
    \<and> (result = POSSIBLE \<longrightarrow> rc' = rc4\<lparr> conditions := conditions rc4 @ [(G, xl_true)] \<rparr>)"
  by (simp add: split_beta Let_def Condition_def)

theorem Bind_when_at_most_POSSIBLE_witness:
  "fst (Bind literal_ops (Prefix (Name ''factorial'') (Name ''N''))
          (Prefix (Name ''factorial'') (Integer 5)) factorial_candidate) = POSSIBLE
   \<and> fst (Bind literal_ops (fst (snd factorial_rewrite))
            (Prefix (Name ''factorial'') (Integer 5)) factorial_candidate) = POSSIBLE
   \<and> conditions (snd (Bind literal_ops (fst (snd factorial_rewrite))
            (Prefix (Name ''factorial'') (Integer 5)) factorial_candidate))
       = [(Infix ''>'' (Name ''N'') (Integer 0), xl_true)]
   \<and> fst (Bind literal_ops (Prefix (Name ''factorial'') (Name ''N''))
            (Integer 5) factorial_candidate) = FAILED
   \<and> fst (Bind literal_ops (fst (snd factorial_rewrite)) (Integer 5) factorial_candidate)
       = FAILED"
proof -
  define F where "F = Prefix (Name ''factorial'') (Name ''N'')"
  define G where "G = Infix ''>'' (Name ''N'') (Integer 0)"
  define rc1 where "rc1 = snd (Bind literal_ops F (Prefix (Name ''factorial'') (Integer 5))
                                 factorial_candidate)"
  have pat: "fst (snd factorial_rewrite) = Infix ''when'' F G"
    by (simp add: factorial_rewrite_def F_def G_def)
  have b: "fst (Bind literal_ops F (Prefix (Name ''factorial'') (Integer 5))
                  factorial_candidate) = POSSIBLE"
    unfolding F_def by code_simp
  have c1: "conditions rc1 = []"
    unfolding rc1_def F_def by code_simp
  have f: "fst (Bind literal_ops F (Integer 5) factorial_candidate) = FAILED"
    unfolding F_def by simp
  have t: "btypes_Type literal_ops G w = (Some tree_type, w)" for w
    by (simp add: literal_ops_def literal_Type_def G_def)
  have u: "fst (Unify literal_ops (Some tree_type) (Some boolean_type) G F r)" for r :: "(unit, unit) binding"
    by (simp add: Unify_def literal_ops_def Let_def split_beta tree_type_def boolean_type_def)
  have uc: "conditions (snd (Unify literal_ops (Some tree_type) (Some boolean_type) G F r))
              = conditions r" for r :: "(unit, unit) binding"
    by (simp add: Unify_def literal_ops_def Let_def split_beta KindCondition_def)
  from Bind_when_at_most_POSSIBLE
         [of literal_ops F "Prefix (Name ''factorial'') (Integer 5)" factorial_candidate G]
       Bind_when_at_most_POSSIBLE [of literal_ops F "Integer 5" factorial_candidate G]
       b f c1
  show ?thesis
    unfolding pat F_def [symmetric] G_def [symmetric]
    by (simp add: split_beta Let_def t u uc rc1_def del: Bind.simps)
qed

text \<open>
  The type check of the definition in \<open>Check\<close> never raises the binding strength: each of
  its steps leaves \<open>binding\<close> as it is or sets it to \<open>FAILED\<close>.
\<close>

lemma check_declared_binding:
  "fst (snd (check_declared ops what init (t, b, w))) = FAILED
   \<or> fst (snd (check_declared ops what init (t, b, w))) = b"
  by (simp add: check_declared_def split_beta Let_def)

lemma check_initializer_binding:
  "fst (snd (check_initializer ops init declType (t, b, w))) = FAILED
   \<or> fst (snd (check_initializer ops init declType (t, b, w))) = b"
  by (simp add: check_initializer_def split_beta Let_def)

lemma check_form_binding:
  "fst (snd (check_form ops form defined (t, b, w))) = FAILED
   \<or> fst (snd (check_form ops form defined (t, b, w))) = b"
  by (simp add: check_form_def split_beta Let_def)

lemma check_expression_binding:
  "fst (snd (check_expression ops what (t, b, w))) = FAILED
   \<or> fst (snd (check_expression ops what (t, b, w))) = b"
  by (simp add: check_expression_def split_beta Let_def)

lemma check_definition_binding:
  "fst (check_definition ops what candidate defined declType type0 binding0 rc) = FAILED
   \<or> fst (check_definition ops what candidate defined declType type0 binding0 rc) = binding0"
proof -
  define s1 where "s1 = check_declared ops what (snd (snd candidate)) (type0, binding0, world rc)"
  define s2 where "s2 = check_initializer ops (snd (snd candidate)) declType s1"
  define s3 where "s3 = check_form ops (fst (snd candidate)) defined s2"
  define s4 where "s4 = check_expression ops what s3"
  have b1: "fst (snd s1) = FAILED \<or> fst (snd s1) = binding0"
    unfolding s1_def by (rule check_declared_binding)
  have b2: "fst (snd s2) = FAILED \<or> fst (snd s2) = fst (snd s1)"
    unfolding s2_def using check_initializer_binding [of ops _ declType "fst s1" "fst (snd s1)" "snd (snd s1)"]
    by simp
  have b3: "fst (snd s3) = FAILED \<or> fst (snd s3) = fst (snd s2)"
    unfolding s3_def using check_form_binding [of ops _ defined "fst s2" "fst (snd s2)" "snd (snd s2)"]
    by simp
  have b4: "fst (snd s4) = FAILED \<or> fst (snd s4) = fst (snd s3)"
    unfolding s4_def using check_expression_binding [of ops what "fst s3" "fst (snd s3)" "snd (snd s3)"]
    by simp
  have "fst (check_definition ops what candidate defined declType type0 binding0 rc) = fst (snd s4)"
    by (simp add: check_definition_def split_beta Let_def s4_def s3_def s2_def s1_def)
  with b1 b2 b3 b4 show ?thesis by auto
qed

lemma check_binding_bound:
  "fst (check_binding ops sc what candidate w) = FAILED
   \<or> fst (check_binding ops sc what candidate w)
       = fst (Bind ops (RewriteDefined (fst (snd candidate))) what
               (snd (declared_type ops candidate
                      (new_RewriteCandidate ops sc candidate
                         (new_Errors ops (fst (snd candidate)) w)))))"
proof -
  define d where "d = declared_type ops candidate
                        (new_RewriteCandidate ops sc candidate
                           (new_Errors ops (fst (snd candidate)) w))"
  define r where "r = Bind ops (RewriteDefined (fst (snd candidate))) what (snd d)"
  have eq: "check_binding ops sc what candidate w =
              (if fst r = FAILED then (FAILED, snd r)
               else check_definition ops what candidate (RewriteDefined (fst (snd candidate)))
                      (RewriteType (fst (snd candidate))) (fst d) (fst r) (snd r))"
    by (simp add: check_binding_def split_beta Let_def r_def d_def)
  show ?thesis
  proof (cases "fst r = FAILED")
    case True
    with eq show ?thesis by simp
  next
    case False
    with eq check_definition_binding [of ops what candidate "RewriteDefined (fst (snd candidate))"
        "RewriteType (fst (snd candidate))" "fst d" "fst r" "snd r"]
    show ?thesis unfolding r_def d_def by auto
  qed
qed

text \<open>
  C1. Let \<open>binding\<close> be the final binding strength that \<open>Check\<close> computes for a candidate.
  \<open>Check\<close> returns the expression when \<open>binding\<close> is \<open>PERFECT\<close> and null in every other
  case; it appends the candidate to the list of candidates when \<open>binding\<close> is not \<open>FAILED\<close>
  and leaves the list alone when it is. A binding that did not fail is the strength that
  \<open>Bind\<close> returned for the defined form, and when \<open>Bind\<close> fails the binding fails.
\<close>

theorem Check_returns_expression_iff_PERFECT:
  "let (binding, rc) = check_binding ops sc what candidate w;
       (found, candidates', w') = Check ops sc what candidate (candidates, w);
       bound = fst (Bind ops (RewriteDefined (fst (snd candidate))) what
                     (snd (declared_type ops candidate
                            (new_RewriteCandidate ops sc candidate
                               (new_Errors ops (fst (snd candidate)) w)))))
   in (found = Some what \<longleftrightarrow> binding = PERFECT)
    \<and> (found = None \<longleftrightarrow> binding \<noteq> PERFECT)
    \<and> (binding \<noteq> FAILED \<longrightarrow> candidates' = candidates @ [RewriteCandidate.truncate rc])
    \<and> (binding = FAILED \<longrightarrow> candidates' = candidates)
    \<and> (binding \<noteq> FAILED \<longrightarrow> binding = bound)
    \<and> (bound = FAILED \<longrightarrow> binding = FAILED)"
  using check_binding_bound [of ops sc what candidate w]
  by (auto simp add: Check_def split_beta Let_def)

theorem Check_returns_expression_iff_PERFECT_witness:
  "fst (check_binding literal_ops () (Integer 0) zero_rewrite ()) = PERFECT
   \<and> fst (Check literal_ops () (Integer 0) zero_rewrite ([], ())) = Some (Integer 0)
   \<and> length (fst (snd (Check literal_ops () (Integer 0) zero_rewrite ([], ())))) = 1
   \<and> fst (check_binding literal_ops () (Name ''x'') zero_rewrite ()) = POSSIBLE
   \<and> fst (Check literal_ops () (Name ''x'') zero_rewrite ([], ())) = None
   \<and> length (fst (snd (Check literal_ops () (Name ''x'') zero_rewrite ([], ())))) = 1
   \<and> fst (check_binding literal_ops () (Integer 3) zero_rewrite ()) = FAILED
   \<and> fst (Check literal_ops () (Integer 3) zero_rewrite ([], ())) = None
   \<and> fst (snd (Check literal_ops () (Integer 3) zero_rewrite ([], ()))) = []"
proof -
  have b: "fst (check_binding literal_ops () (Integer 0) zero_rewrite ()) = PERFECT"
    "fst (check_binding literal_ops () (Name ''x'') zero_rewrite ()) = POSSIBLE"
    "fst (check_binding literal_ops () (Integer 3) zero_rewrite ()) = FAILED"
    by code_simp+
  from Check_returns_expression_iff_PERFECT [of literal_ops "()" "Integer 0" zero_rewrite "()" "[]"]
       Check_returns_expression_iff_PERFECT [of literal_ops "()" "Name ''x''" zero_rewrite "()" "[]"]
       Check_returns_expression_iff_PERFECT [of literal_ops "()" "Integer 3" zero_rewrite "()" "[]"]
       b
  show ?thesis
    by (simp add: split_beta Let_def)
qed

text \<open>
  The walk of \<open>Context::Lookup\<close> with \<open>Check\<close> as its callback: after a candidate with a
  perfect binding the later rules are not examined; after any other candidate the walk
  goes on with the later rules, in their order.
\<close>

lemma Lookup_found:
  "fst (callback decl s) = Some found \<Longrightarrow> Lookup callback (decl # decls) s = callback decl s"
  by (cases "callback decl s") simp

lemma Lookup_not_found:
  "fst (callback decl s) = None \<Longrightarrow>
   Lookup callback (decl # decls) s = Lookup callback decls (snd (callback decl s))"
  by (cases "callback decl s") simp

lemma Lookup_Check:
  "Lookup (Check ops sc what) (candidate # later) (candidates, w) =
     (if fst (check_binding ops sc what candidate w) = PERFECT
      then Check ops sc what candidate (candidates, w)
      else Lookup (Check ops sc what) later (snd (Check ops sc what candidate (candidates, w))))"
proof (cases "fst (check_binding ops sc what candidate w) = PERFECT")
  case True
  then have "fst (Check ops sc what candidate (candidates, w)) = Some what"
    by (simp add: Check_def split_beta Let_def)
  with True show ?thesis using Lookup_found [of "Check ops sc what" candidate "(candidates, w)" what later] by simp
next
  case False
  then have "fst (Check ops sc what candidate (candidates, w)) = None"
    by (simp add: Check_def split_beta Let_def)
  with False show ?thesis using Lookup_not_found [of "Check ops sc what" candidate "(candidates, w)" later] by simp
qed

subsection \<open>Closures\<close>

lemma MakeClosure_of_closure:
  "is_closure_value s v \<Longrightarrow> MakeClosure (Suc fuel) Bound s ctx v = Some (v, s)"
  by (auto simp add: is_closure_value_def close_value_def)

lemma MakeClosure_of_plain_constant:
  "is_plain_constant s v \<Longrightarrow> MakeClosure (Suc fuel) Bound s ctx v = Some (v, s)"
  by (auto simp add: is_plain_constant_def)

lemma new_closure_is_closure:
  "new_closure s sc v = (p, s') \<Longrightarrow> is_closure_value s' p"
  by (auto simp add: new_closure_def is_closure_value_def node_at_def Let_def)

lemma close_value_is_closure:
  assumes "node_at s v = Some n" and "close_value s sc (node_Kind n) v = (p, s')"
  shows "is_closure_value s' p"
proof (cases "node_Kind n \<noteq> PREFIX \<or> v \<notin> ClosureInfo s")
  case True
  with assms have "new_closure s sc v = (p, s')" by (simp add: close_value_def)
  then show ?thesis by (rule new_closure_is_closure)
next
  case False
  with assms have eq: "p = v" "s' = s" by (simp_all add: close_value_def)
  from False have "node_Kind n = PREFIX" "v \<in> ClosureInfo s" by simp_all
  with assms(1) eq show ?thesis
    by (cases n) (simp_all add: is_closure_value_def)
qed

text \<open>
  Whatever \<open>MakeClosure\<close> returns is a closure or a plain constant: by induction on the
  number of times the code starts over.
\<close>

lemma MakeClosure_result:
  "MakeClosure fuel Bound s ctx v = Some (v', s') \<Longrightarrow>
   is_closure_value s' v' \<or> is_plain_constant s' v'"
proof (induction fuel Bound s ctx v rule: MakeClosure.induct)
  case (1 Bound s ctx v)
  then show ?case by simp
next
  case (2 fuel Bound s ctx v)
  from "2.prems" obtain n where n: "node_at s v = Some n"
    by (cases "node_at s v") auto
  show ?case
  proof (cases "kind_index NAME \<le> kind_index (node_Kind n) \<or> HasRewritesFor s (node_Kind n)")
    case False
    with n "2.prems" have "v' = v" "s' = s" by auto
    with n False show ?thesis by (auto simp add: is_plain_constant_def)
  next
    case True
    with n "2.prems" "2.IH" show ?thesis
      by (auto simp add: Let_def split: option.splits if_splits prod.splits
            dest: close_value_is_closure)
  qed
qed

text \<open>
  C4. The claim says that the closure of a value that is already a closure is the inner
  value wrapped in a new closure only if the closed-over scope differs from the current
  scope, that is: a new closure when the two scopes differ, the same closure when they are
  the same. \<open>MakeClosure\<close> compares no scopes. In the store of the example the closure 4
  closes over the scope 1; with the current scope 2 \<open>MakeClosure\<close> returns the closure 4
  itself and allocates nothing, where the reading of the specification gives a new node 5.
\<close>

theorem MakeClosure_never_rewraps:
  "IsClosure example_store 4 = Some (3, 1)
   \<and> MakeClosure 1 no_Bound example_store 2 4 = Some (4, example_store)
   \<and> fst (the (closure_of_closure_spec example_store 2 4)) = 5
   \<and> MakeClosure 1 no_Bound example_store 2 4 \<noteq> closure_of_closure_spec example_store 2 4"
  by (simp add: IsClosure_def node_at_def example_store_def close_value_def
        closure_of_closure_spec_def new_closure_def)

text \<open>
  C4, as amended. The closure of a value that is already a closure (a prefix that carries
  \<open>ClosureInfo\<close>) is that same closure, and the store is unchanged, whatever the current
  scope. Wrapping is idempotent: whatever \<open>MakeClosure\<close> returned, \<open>MakeClosure\<close> on it, in
  any context, returns it again at once and changes nothing.
\<close>

theorem MakeClosure_idempotent:
  "(is_closure_value s v \<longrightarrow> MakeClosure (Suc fuel) Bound s ctx v = Some (v, s))
   \<and> (MakeClosure fuel Bound s ctx v = Some (v', s') \<longrightarrow>
        MakeClosure (Suc fuel') Bound' s' ctx' v' = Some (v', s'))"
proof (intro conjI impI)
  assume "is_closure_value s v"
  then show "MakeClosure (Suc fuel) Bound s ctx v = Some (v, s)"
    by (rule MakeClosure_of_closure)
next
  assume "MakeClosure fuel Bound s ctx v = Some (v', s')"
  then have "is_closure_value s' v' \<or> is_plain_constant s' v'"
    by (rule MakeClosure_result)
  then show "MakeClosure (Suc fuel') Bound' s' ctx' v' = Some (v', s')"
    using MakeClosure_of_closure MakeClosure_of_plain_constant by blast
qed

theorem MakeClosure_idempotent_witness:
  "is_closure_value example_store 4
   \<and> MakeClosure 1 no_Bound example_store 1 4 = Some (4, example_store)
   \<and> MakeClosure 1 no_Bound example_store 2 4 = Some (4, example_store)
   \<and> MakeClosure 1 no_Bound example_store 2 3 = Some (new_closure example_store 2 3)
   \<and> fst (new_closure example_store 2 3) = 5
   \<and> MakeClosure 1 no_Bound (snd (new_closure example_store 2 3)) 1 5
       = Some (5, snd (new_closure example_store 2 3))"
proof -
  have c: "is_closure_value example_store 4"
    by (simp add: is_closure_value_def node_at_def example_store_def)
  have w: "MakeClosure 1 no_Bound example_store 2 3 = Some (new_closure example_store 2 3)"
    by (simp add: node_at_def example_store_def close_value_def HasRewritesFor_def)
  have p: "fst (new_closure example_store 2 3) = 5"
    by (simp add: new_closure_def example_store_def)
  have w': "MakeClosure 1 no_Bound example_store 2 3
              = Some (5, snd (new_closure example_store 2 3))"
    unfolding w p [symmetric] by simp
  from MakeClosure_idempotent [where s = example_store and v = 4 and fuel = 0
                                 and Bound = no_Bound and ctx = 1]
       MakeClosure_idempotent [where s = example_store and v = 4 and fuel = 0
                                 and Bound = no_Bound and ctx = 2]
       MakeClosure_idempotent [where s = example_store and v = 3 and fuel = 1
                                 and Bound = no_Bound and ctx = 2 and v' = 5
                                 and s' = "snd (new_closure example_store 2 3)"
                                 and fuel' = 0 and Bound' = no_Bound and ctx' = 1]
       c w w' p
  show ?thesis by (simp del: MakeClosure.simps)
qed

subsection \<open>The parser\<close>

text \<open>
  Turning the low bit off leaves an even priority as it is and makes an odd one smaller.
\<close>

lemma and_not_one_even: "even (p :: int) \<Longrightarrow> p AND NOT 1 = p"
  by (rule bit_eqI) (auto simp add: bit_simps bit_0)

lemma and_not_one_odd:
  assumes "odd (p :: int)"
  shows "p AND NOT 1 = p - 1"
proof (rule bit_eqI)
  fix n
  have e: "even (p - 1)" using assms by simp
  show "bit (p AND NOT 1) n = bit (p - 1) n"
  proof (cases "n = 0")
    case True
    with e show ?thesis by (simp add: bit_simps bit_0 even_and_iff del: not_one_eq)
  next
    case False
    with odd_bit_iff_bit_pred [OF assms, of n] show ?thesis
      by (simp add: bit_simps bit_0)
  qed
qed

lemma low_bit_trick: "(p :: int) > (p AND NOT 1) \<longleftrightarrow> odd p"
proof (cases "even p")
  case True
  then have "p AND NOT 1 = p" by (rule and_not_one_even)
  with True show ?thesis by (simp del: not_one_eq)
next
  case False
  then have "p AND NOT 1 = p - 1" by (rule and_not_one_odd)
  with False show ?thesis by (simp del: not_one_eq)
qed

lemma low_bit_trick': "(p :: int) AND - 2 < p \<longleftrightarrow> odd p"
  using low_bit_trick [of p] by simp

text \<open>
  One iteration of the loop, for the tokens met below.
\<close>

lemma statement_break_fields [simp]:
  "result (statement_break syn p st) = result st"
  "left (statement_break syn p st) = left st"
  "right (statement_break syn p st) = right st"
  "stack (statement_break syn p st) = stack st"
  "finished (statement_break syn p st) = finished st"
  "errors (statement_break syn p st) = errors st"
  "prefix_prio (statement_break syn p st) = prefix_prio st"
  "infix_prio (statement_break syn p st) = infix_prio st"
  "infix_name (statement_break syn p st) = infix_name st"
  "result_priority (statement_break syn p st) = result_priority st"
  by (simp_all add: statement_break_def)

lemma next_turn_fields [simp]:
  "result (next_turn syn st) = result st"
  "left (next_turn syn st) = left st"
  "right (next_turn syn st) = None"
  "stack (next_turn syn st) = stack st"
  "finished (next_turn syn st) = finished st"
  "errors (next_turn syn st) = errors st"
  "prefix_prio (next_turn syn st) = default_priority (tables syn)"
  "infix_prio (next_turn syn st) = default_priority (tables syn)"
  by (simp_all add: next_turn_def)

lemma finish_cong:
  assumes "stack a = stack b" and "result a = result b"
  shows "finish opts a = finish opts b"
  unfolding finish_def assms ..

lemma combine_no_token:
  assumes "left st = None" and "right st = None"
  shows "finish opts (combine opts syn st) = finish opts st"
    and "errors (combine opts syn st) = errors st"
    and "finished (combine opts syn st) = finished st"
    and "stack (combine opts syn st) = stack st"
    and "result (combine opts syn st) = result st"
    and "left (combine opts syn st) = None"
proof -
  have c: "combine opts syn st =
             (case result st of
                None \<Rightarrow> st\<lparr> result := None, result_priority := prefix_prio st \<rparr>
              | Some res \<Rightarrow> st)"
    using assms by (cases "result st") (simp_all add: combine_def)
  show "errors (combine opts syn st) = errors st"
    and "finished (combine opts syn st) = finished st"
    and s: "stack (combine opts syn st) = stack st"
    and r: "result (combine opts syn st) = result st"
    and "left (combine opts syn st) = None"
    using assms by (cases "result st"; simp add: c)+
  from s r show "finish opts (combine opts syn st) = finish opts st"
    by (rule finish_cong)
qed

lemma combine_first:
  assumes "result st = None"
  shows "result (combine opts syn st) = right st"
    and "left (combine opts syn st) = left st"
    and "stack (combine opts syn st) = stack st"
    and "finished (combine opts syn st) = finished st"
    and "errors (combine opts syn st) = errors st"
  using assms by (simp_all add: combine_def)

lemma combine_infix:
  assumes "result st = Some r" and "left st = Some l"
    and "prefix_prio st = default_priority (tables syn)" and "\<not> finished st"
  shows "result (combine opts syn st) = None"
    and "left (combine opts syn st) = None"
    and "stack (combine opts syn st) =
           Pending (infix_name st)
             (snd (flush opts (default_priority (tables syn)) False (infix_prio st) (stack st) l))
             (infix_prio st)
           # fst (flush opts (default_priority (tables syn)) False (infix_prio st) (stack st) l)"
    and "finished (combine opts syn st) = False"
    and "errors (combine opts syn st) = errors st"
  using assms by (simp_all add: combine_def Let_def split_beta)

lemma scan_token_infix:
  assumes "tok t = tokNAME \<or> tok t = tokSYMBOL" and "NameValue t \<noteq> closing"
    and "result st = Some r" and "left st = None"
    and "InfixPriority syn (NameValue t) \<noteq> default_priority (tables syn)"
    and "PrefixPriority syn (NameValue t) = default_priority (tables syn)
         \<or> \<not> hadSpaceBefore t \<or> hadSpaceAfter t"
  shows "scan_token opts syn closing t st =
           st\<lparr> infix_prio := InfixPriority syn (NameValue t), left := Some r,
               infix_name := NameValue t \<rparr>"
proof -
  have "scan_token opts syn closing t st = scan_name opts syn closing t st"
    using assms(1) by (auto simp add: scan_token_def)
  also have "\<dots> = scan_operator opts syn t r st"
    using assms(2-4) by (simp add: scan_name_def)
  also have "\<dots> = st\<lparr> infix_prio := InfixPriority syn (NameValue t), left := Some r,
               infix_name := NameValue t \<rparr>"
    using assms(3,5,6) by (simp add: scan_operator_def Let_def)
  finally show ?thesis .
qed

lemma scan_token_operand:
  assumes "tok t = tokNAME" and "NameValue t \<noteq> closing" and "result st = None"
  shows "right (scan_token opts syn closing t st) = Some (Name (NameValue t))"
    and "result (scan_token opts syn closing t st) = None"
    and "left (scan_token opts syn closing t st) = left st"
    and "stack (scan_token opts syn closing t st) = stack st"
    and "finished (scan_token opts syn closing t st) = finished st"
    and "errors (scan_token opts syn closing t st) = errors st"
  using assms by (simp_all add: scan_token_def scan_name_def Let_def)

lemma Parse_loop_simple:
  assumes "\<not> finished st" and "tok t \<noteq> tokINDENT" and "tok t \<noteq> tokPAROPEN"
    and "special_syntax opts syn closing t = Inr None"
  shows "Parse_loop opts syn closing st (t # ts) =
           Parse_loop opts syn closing
             (combine opts syn (scan_token opts syn closing t (next_turn syn st))) ts"
  using assms by simp

lemma Parse_loop_finished:
  "finished st \<Longrightarrow> Parse_loop opts syn closing st toks = Inr (st, toks)"
  by (cases toks) simp_all

lemma Parse_loop_infix:
  assumes "\<not> finished st" and "result st = Some r" and "left st = None"
    and "tok t = tokNAME \<or> tok t = tokSYMBOL" and "NameValue t \<noteq> closing"
    and "HasSpecialSyntax (syntax_host opts) syn (NameValue t) = Inr None"
    and "InfixPriority syn (NameValue t) \<noteq> default_priority (tables syn)"
    and "PrefixPriority syn (NameValue t) = default_priority (tables syn)
         \<or> \<not> hadSpaceBefore t \<or> hadSpaceAfter t"
  shows "\<exists>st'. Parse_loop opts syn closing st (t # ts) = Parse_loop opts syn closing st' ts
           \<and> result st' = None \<and> left st' = None
           \<and> stack st' =
               Pending (NameValue t)
                 (snd (flush opts (default_priority (tables syn)) False
                         (InfixPriority syn (NameValue t)) (stack st) r))
                 (InfixPriority syn (NameValue t))
               # fst (flush opts (default_priority (tables syn)) False
                        (InfixPriority syn (NameValue t)) (stack st) r)
           \<and> \<not> finished st' \<and> errors st' = errors st"
proof -
  define st0 where "st0 = next_turn syn st"
  define st1 where "st1 = scan_token opts syn closing t st0"
  define st' where "st' = combine opts syn st1"
  have sp: "special_syntax opts syn closing t = Inr None"
    using assms(6) by (simp add: special_syntax_def)
  have tk: "tok t \<noteq> tokINDENT" "tok t \<noteq> tokPAROPEN" using assms(4) by auto
  have loop: "Parse_loop opts syn closing st (t # ts) = Parse_loop opts syn closing st' ts"
    unfolding st'_def st1_def st0_def using assms(1) tk sp by (rule Parse_loop_simple)
  have s1: "st1 = st0\<lparr> infix_prio := InfixPriority syn (NameValue t), left := Some r,
               infix_name := NameValue t \<rparr>"
    unfolding st1_def
    using assms(4,5) _ _ assms(7,8)
    by (rule scan_token_infix) (simp_all add: st0_def assms)
  have f1: "result st1 = Some r" "left st1 = Some r"
    "prefix_prio st1 = default_priority (tables syn)" "\<not> finished st1"
    "infix_prio st1 = InfixPriority syn (NameValue t)" "infix_name st1 = NameValue t"
    "stack st1 = stack st" "errors st1 = errors st"
    by (simp_all add: s1 st0_def assms)
  from combine_infix [OF f1(1-4), where opts = opts] f1(5-8) loop
  show ?thesis unfolding st'_def [symmetric] by auto
qed

lemma Parse_loop_operand:
  assumes "\<not> finished st" and "result st = None" and "left st = None"
    and "tok t = tokNAME" and "NameValue t \<noteq> closing"
    and "HasSpecialSyntax (syntax_host opts) syn (NameValue t) = Inr None"
  shows "\<exists>st'. Parse_loop opts syn closing st (t # ts) = Parse_loop opts syn closing st' ts
           \<and> result st' = Some (Name (NameValue t)) \<and> left st' = None
           \<and> stack st' = stack st \<and> \<not> finished st' \<and> errors st' = errors st"
proof -
  define st1 where "st1 = scan_token opts syn closing t (next_turn syn st)"
  define st' where "st' = combine opts syn st1"
  have sp: "special_syntax opts syn closing t = Inr None"
    using assms(6) by (simp add: special_syntax_def)
  have tk: "tok t \<noteq> tokINDENT" "tok t \<noteq> tokPAROPEN" using assms(4) by auto
  have loop: "Parse_loop opts syn closing st (t # ts) = Parse_loop opts syn closing st' ts"
    unfolding st'_def st1_def using assms(1) tk sp by (rule Parse_loop_simple)
  have r0: "result (next_turn syn st) = None" using assms(2) by simp
  note f1 = scan_token_operand [OF assms(4,5) r0, where opts = opts and syn = syn,
                                 folded st1_def]
  note f2 = combine_first [OF f1(2), where opts = opts and syn = syn, folded st'_def]
  from loop f1 f2 assms show ?thesis by auto
qed

lemma scan_token_eof:
  "scan_token opts syn closing eof_token st =
     (if closing \<noteq> [] \<and> closing \<noteq> Block_unindent
      then Log (UnexpectedEnd closing) (st\<lparr> finished := True \<rparr>)
      else st\<lparr> finished := True \<rparr>)"
  by (simp add: scan_token_def eof_token_def)

lemma Parse_loop_end:
  assumes "\<not> finished st" and "left st = None"
  shows "\<exists>st'. Parse_loop opts syn [] st [] = Inr (st', [])
           \<and> finish opts st' = finish opts st \<and> errors st' = errors st"
proof -
  define st1 where "st1 = scan_token opts syn [] eof_token (next_turn syn st)"
  have s1: "st1 = (next_turn syn st)\<lparr> finished := True \<rparr>"
    unfolding st1_def by (simp add: scan_token_eof)
  have f1: "left st1 = None" "right st1 = None" "errors st1 = errors st"
    "stack st1 = stack st" "result st1 = result st"
    by (simp_all add: s1 assms)
  have "finish opts st1 = finish opts st"
    using f1(4,5) by (rule finish_cong)
  with combine_no_token [OF f1(1,2), of opts syn] f1 assms(1)
  show ?thesis by (simp add: st1_def)
qed

lemma scan_token_name:
  "tok t = tokNAME \<or> tok t = tokSYMBOL \<Longrightarrow>
   scan_token opts syn closing t st = scan_name opts syn closing t st"
  by (auto simp add: scan_token_def)

lemma scan_token_parclose:
  "tok t = tokPARCLOSE \<Longrightarrow>
   scan_token opts syn closing t st =
     (if NameValue t \<noteq> closing
      then Log (MismatchedParentheses (NameValue t) closing) st else st)\<lparr> finished := True \<rparr>"
  by (simp add: scan_token_def)

lemma scan_token_end:
  "tok t = tokEOF \<or> tok t = tokERROR \<Longrightarrow>
   scan_token opts syn closing t st =
     (if closing \<noteq> [] \<and> closing \<noteq> Block_unindent
      then Log (UnexpectedEnd closing) (st\<lparr> finished := True \<rparr>)
      else st\<lparr> finished := True \<rparr>)"
  by (auto simp add: scan_token_def)

lemma Parse_loop_stop:
  assumes nf: "\<not> finished st" and l: "left st = None"
    and s1: "st1 = Log e ((next_turn syn st)\<lparr> finished := True \<rparr>)"
  shows "finished (combine opts syn st1)"
    and "errors (combine opts syn st1) = errors st @ [e]"
    and "finish opts (combine opts syn st1) = finish opts st"
proof -
  have f1: "left st1 = None" "right st1 = None" "errors st1 = errors st @ [e]"
    "stack st1 = stack st" "result st1 = result st" "finished st1"
    by (simp_all add: s1 l Log_def)
  have "finish opts st1 = finish opts st"
    using f1(4,5) by (rule finish_cong)
  with combine_no_token [OF f1(1,2), of opts syn] f1
  show "finished (combine opts syn st1)"
    and "errors (combine opts syn st1) = errors st @ [e]"
    and "finish opts (combine opts syn st1) = finish opts st"
    by simp_all
qed

text \<open>
  When the child syntax found for a name does not carry the file name it was looked up by,
  the assertion of \<open>HasSpecialSyntax\<close> fails and the parse does not return.
\<close>

lemma HasSpecialSyntax_failed_assertion:
  "HasSpecialSyntax example_host dangling_syntax ''asm'' = Inl AssertionFailed"
  by (simp add: HasSpecialSyntax_def dangling_syntax_def example_host_def)

lemma Parse_aborts_on_failed_assertion:
  "Parse example_options dangling_syntax [] [] [name_token ''a'', name_token ''asm'']
     = Inl AssertionFailed"
  by code_simp

text \<open>
  At the head of every iteration \<open>left\<close> is null: an iteration that sets it has a result,
  and the second half of the iteration then consumes it.
\<close>

lemma combine_left:
  assumes "left st = None \<or> result st \<noteq> None"
  shows "left (combine opts syn st) = None"
proof (cases "result st")
  case None
  with assms show ?thesis by (simp add: combine_def)
next
  case (Some res)
  show ?thesis
  proof (cases "left st")
    case (Some l)
    with \<open>result st = Some res\<close> show ?thesis
      by (simp add: combine_def Let_def split_beta)
  next
    case None
    with \<open>result st = Some res\<close> show ?thesis
      by (cases "right st") (simp_all add: combine_def Let_def split_beta)
  qed
qed

lemma scan_operator_left:
  assumes "left st = None" and "result st = Some res"
  shows "result (scan_operator opts syn t res st) \<noteq> None \<or> left (scan_operator opts syn t res st) = None"
  using assms by (simp add: scan_operator_def Let_def split_beta)

lemma scan_name_left:
  assumes "left st = None"
  shows "left (scan_name opts syn closing t st) = None \<or> result (scan_name opts syn closing t st) \<noteq> None"
proof (cases "result st")
  case None
  with assms show ?thesis by (simp add: scan_name_def Let_def)
next
  case (Some res)
  with assms scan_operator_left [OF assms Some, of opts syn t] show ?thesis
    by (auto simp add: scan_name_def Let_def)
qed

lemma scan_token_left:
  assumes "left st = None"
  shows "left (scan_token opts syn closing t st) = None \<or> result (scan_token opts syn closing t st) \<noteq> None"
proof (cases "tok t = tokNAME \<or> tok t = tokSYMBOL")
  case True
  then have "scan_token opts syn closing t st = scan_name opts syn closing t st"
    by (auto simp add: scan_token_def)
  with scan_name_left [OF assms] show ?thesis by simp
next
  case False
  with assms show ?thesis
    by (cases "tok t"; cases "result st") (simp_all add: scan_token_def scan_text_def Log_def Let_def)
qed

lemma iteration_left:
  assumes "left st = None"
  shows "left (combine opts syn (scan_token opts syn closing t (next_turn syn st))) = None"
    and "left (combine opts syn (close_block opts syn inner (open_block syn t (next_turn syn st)))) = None"
    and "left (combine opts syn (close_special opts n c inner (next_turn syn st))) = None"
proof -
  have l: "left (next_turn syn st) = None" using assms by simp
  show "left (combine opts syn (scan_token opts syn closing t (next_turn syn st))) = None"
    using scan_token_left [OF l] by (rule combine_left)
  have "left (close_block opts syn inner (open_block syn t (next_turn syn st))) = None"
    using l by (simp add: close_block_def open_block_def Let_def Log_def split: option.splits)
  then show "left (combine opts syn (close_block opts syn inner (open_block syn t (next_turn syn st)))) = None"
    by (simp add: combine_left)
  have "left (close_special opts n c inner (next_turn syn st)) = None"
    using l by (simp add: close_special_def Let_def)
  then show "left (combine opts syn (close_special opts n c inner (next_turn syn st))) = None"
    by (simp add: combine_left)
qed

lemma Parse_loop_left:
  "left st = None \<Longrightarrow> Parse_loop opts syn closing st toks = Inr r \<Longrightarrow> left (fst r) = None"
proof (induction opts syn closing st toks arbitrary: r rule: Parse_loop.induct)
  case (1 opts syn closing st)
  then show ?case by (auto simp add: iteration_left split: if_splits)
next
  case (2 opts syn closing st t ts)
  show ?case
  proof (cases "finished st")
    case True
    with "2.prems" show ?thesis by auto
  next
    case nf: False
    show ?thesis
    proof (cases "tok t = tokINDENT \<or> tok t = tokPAROPEN")
      case blk: True
      define st1 where "st1 = open_block syn t (next_turn syn st)"
      from "2.prems"(2) nf blk obtain inner where
        i: "Parse_loop opts syn (blk_closing st1)
              (new_parse syn (blk_closing st1) (errors st1)) ts = Inr inner"
        and o: "Parse_loop opts syn closing
              (combine opts syn (close_block opts syn (fst inner) st1)) (snd inner) = Inr r"
        by (auto simp add: Let_def st1_def [symmetric] split: sum.splits)
      have "left (combine opts syn (close_block opts syn (fst inner) st1)) = None"
        unfolding st1_def using "2.prems"(1) by (rule iteration_left)
      from "2.IH"(2) [OF nf blk st1_def i this o] show ?thesis .
    next
      case nblk: False
      show ?thesis
      proof (cases "special_syntax opts syn closing t")
        case (Inl a)
        with "2.prems"(2) nf nblk show ?thesis by simp
      next
        case (Inr special)
        show ?thesis
        proof (cases special)
          case None
          have l: "left (combine opts syn (scan_token opts syn closing t (next_turn syn st)))
                     = None"
            using "2.prems"(1) by (rule iteration_left)
          from "2.prems"(2) nf nblk Inr None have
            "Parse_loop opts syn closing
               (combine opts syn (scan_token opts syn closing t (next_turn syn st))) ts = Inr r"
            by simp
          from "2.IH"(3) [OF nf nblk Inr None l this] show ?thesis .
        next
          case (Some cs)
          from "2.prems"(2) nf nblk Inr Some obtain inner where
            i: "Parse_loop opts (child_syntax (fst cs)) (snd cs)
                  (new_parse (child_syntax (fst cs)) (snd cs) (errors st)) ts = Inr inner"
            and o: "Parse_loop opts syn closing
                     (combine opts syn
                        (close_special opts (NameValue t) (snd cs) (fst inner)
                           (next_turn syn st)))
                     (snd inner) = Inr r"
            by (auto split: sum.splits)
          have "left (combine opts syn
                        (close_special opts (NameValue t) (snd cs) (fst inner)
                           (next_turn syn st))) = None"
            using "2.prems"(1) by (rule iteration_left)
          from "2.IH"(5) [OF nf nblk Inr Some i this o] show ?thesis .
        qed
      qed
    qed
  qed
qed

text \<open>
  C5. Parsing \<open>a + b + c\<close>, in any syntax in which \<open>+\<close> has an infix priority and none of
  the four names introduces a special syntax, yields \<open>Infix + (Infix + a b) c\<close> when the
  priority of \<open>+\<close> is even and \<open>Infix + a (Infix + b c)\<close> when it is odd. At the second
  \<open>+\<close> the pending stack holds \<open>a +\<close>, and the entry stays on the stack exactly when
  \<open>p > (p & ~1)\<close>, that is when \<open>p\<close> is odd.
\<close>

theorem Parse_associativity_by_priority_parity:
  assumes inf: "InfixPriority syn ''+'' \<noteq> default_priority (tables syn)"
    and sa: "HasSpecialSyntax (syntax_host opts) syn ''a'' = Inr None"
    and sp: "HasSpecialSyntax (syntax_host opts) syn ''+'' = Inr None"
    and sb: "HasSpecialSyntax (syntax_host opts) syn ''b'' = Inr None"
    and sc: "HasSpecialSyntax (syntax_host opts) syn ''c'' = Inr None"
  shows "Parse opts syn [] errs a_plus_b_plus_c =
           Inr (if even (InfixPriority syn ''+'')
                then Some (Infix ''+'' (Infix ''+'' (Name ''a'') (Name ''b'')) (Name ''c''))
                else Some (Infix ''+'' (Name ''a'') (Infix ''+'' (Name ''b'') (Name ''c''))),
                [], errs)"
proof -
  define p where "p = InfixPriority syn ''+''"
  define d where "d = default_priority (tables syn)"
  define st0 where "st0 = new_parse syn [] errs"
  have tk: "tok (name_token n) = tokNAME" "NameValue (name_token n) = n"
    "tok (spaced_symbol n) = tokSYMBOL" "NameValue (spaced_symbol n) = n"
    "hadSpaceAfter (spaced_symbol n)" for n
    by (simp_all add: name_token_def spaced_symbol_def eof_token_def)
  have i0: "\<not> finished st0" "result st0 = None" "left st0 = None" "stack st0 = []"
    "errors st0 = errs"
    by (simp_all add: st0_def new_parse_def Let_def)
  obtain st1 where s1: "Parse_loop opts syn [] st0 a_plus_b_plus_c
        = Parse_loop opts syn [] st1 (tl a_plus_b_plus_c)"
    and i1: "result st1 = Some (Name ''a'')" "left st1 = None" "stack st1 = []" "\<not> finished st1"
       "errors st1 = errs"
    using Parse_loop_operand [where st = st0 and t = "name_token ''a''" and closing = "[]"
            and syn = syn and opts = opts and ts = "tl a_plus_b_plus_c"] i0 sa tk
    by (auto simp add: a_plus_b_plus_c_def)
  obtain st2 where s2: "Parse_loop opts syn [] st1 (tl a_plus_b_plus_c)
        = Parse_loop opts syn [] st2 (tl (tl a_plus_b_plus_c))"
    and i2: "result st2 = None" "left st2 = None"
       "stack st2 = [Pending ''+'' (Name ''a'') p]" "\<not> finished st2" "errors st2 = errs"
    using Parse_loop_infix [where st = st1 and r = "Name ''a''" and t = "spaced_symbol ''+''"
            and closing = "[]" and syn = syn and opts = opts and ts = "tl (tl a_plus_b_plus_c)"] i1 sp tk inf
    by (auto simp add: a_plus_b_plus_c_def p_def)
  obtain st3 where s3: "Parse_loop opts syn [] st2 (tl (tl a_plus_b_plus_c))
        = Parse_loop opts syn [] st3 (tl (tl (tl a_plus_b_plus_c)))"
    and i3: "result st3 = Some (Name ''b'')" "left st3 = None"
       "stack st3 = [Pending ''+'' (Name ''a'') p]" "\<not> finished st3" "errors st3 = errs"
    using Parse_loop_operand [where st = st2 and t = "name_token ''b''" and closing = "[]"
            and syn = syn and opts = opts and ts = "tl (tl (tl a_plus_b_plus_c))"] i2 sb tk
    by (auto simp add: a_plus_b_plus_c_def)
  obtain st4 where s4: "Parse_loop opts syn [] st3 (tl (tl (tl a_plus_b_plus_c)))
        = Parse_loop opts syn [] st4 [name_token ''c'']"
    and i4: "result st4 = None" "left st4 = None"
       "stack st4 = (if even p then [Pending ''+'' (Infix ''+'' (Name ''a'') (Name ''b'')) p]
                    else [Pending ''+'' (Name ''b'') p, Pending ''+'' (Name ''a'') p])"
       "\<not> finished st4" "errors st4 = errs"
    using Parse_loop_infix [where st = st3 and r = "Name ''b''" and t = "spaced_symbol ''+''"
            and closing = "[]" and syn = syn and opts = opts and ts = "[name_token ''c'']"] i3 sp tk inf
    by (auto simp add: a_plus_b_plus_c_def p_def low_bit_trick' reduce_def prefix_opcode_def)
  obtain st5 where s5: "Parse_loop opts syn [] st4 [name_token ''c'']
        = Parse_loop opts syn [] st5 []"
    and i5: "result st5 = Some (Name ''c'')" "left st5 = None"
       "stack st5 = stack st4" "\<not> finished st5" "errors st5 = errs"
    using Parse_loop_operand [where st = st4 and t = "name_token ''c''" and closing = "[]"
            and syn = syn and opts = opts and ts = "[]"] i4 sc tk
    by auto
  obtain st6 where s6: "Parse_loop opts syn [] st5 [] = Inr (st6, [])"
    and i6: "finish opts st6 = finish opts st5" "errors st6 = errs"
    using Parse_loop_end [where st = st5 and opts = opts and syn = syn] i5 by auto
  have "Parse opts syn [] errs a_plus_b_plus_c = Inr (finish opts st5, [], errs)"
    unfolding Parse_def st0_def [symmetric] s1 s2 s3 s4 s5 s6
    by (simp add: i6 del: Parse_loop.simps)
  moreover have "finish opts st5 = (if even p
            then Some (Infix ''+'' (Infix ''+'' (Name ''a'') (Name ''b'')) (Name ''c''))
            else Some (Infix ''+'' (Name ''a'') (Infix ''+'' (Name ''b'') (Name ''c''))))"
    using i5 i4 by (simp add: finish_def reduce_def prefix_opcode_def)
  ultimately show ?thesis by (simp add: p_def)
qed

theorem Parse_associativity_by_priority_parity_witness:
  "Parse example_options (example_syntax 300) [] [] a_plus_b_plus_c
     = Inr (Some (Infix ''+'' (Infix ''+'' (Name ''a'') (Name ''b'')) (Name ''c'')), [], [])
   \<and> Parse example_options (example_syntax 301) [] [] a_plus_b_plus_c
     = Inr (Some (Infix ''+'' (Name ''a'') (Infix ''+'' (Name ''b'') (Name ''c''))), [], [])"
proof -
  have h: "InfixPriority (example_syntax 300) ''+'' = 300"
    "InfixPriority (example_syntax 301) ''+'' = 301"
    "default_priority (tables (example_syntax p)) = default_priority empty_tables"
    "HasSpecialSyntax (syntax_host example_options) (example_syntax p) n = Inr None" for p n
    by (simp_all add: example_syntax_def example_tables_def InfixPriority_def
          HasSpecialSyntax_def)
  have d: "default_priority empty_tables \<noteq> 300" "default_priority empty_tables \<noteq> 301"
    by (simp_all add: empty_tables_def)
  from Parse_associativity_by_priority_parity [where syn = "example_syntax 300"
         and opts = example_options and errs = "[]"]
       Parse_associativity_by_priority_parity [where syn = "example_syntax 301"
         and opts = example_options and errs = "[]"] h d
  show ?thesis by simp
qed

text \<open>
  C2. The claim says that a name with an infix and a prefix priority is an infix when
  there was no space before the token but there is space after it. The code tests
  \<open>!hadSpaceBefore || hadSpaceAfter\<close>: the name is an infix unless a space stood before it
  and none after it. In \<open>a - b\<close>, with spaces on both sides of a \<open>-\<close> that is an infix and a
  prefix, the claim's rule makes \<open>-\<close> a prefix; the parser takes it as an infix and returns
  \<open>Infix - a b\<close>.
\<close>

theorem operator_between_spaces_is_infix:
  "treated_as (scan_token example_options (example_syntax 300) [] (spaced_symbol ''-'') after_a)
     = AsInfix
   \<and> discriminate_spec (example_syntax 300) (spaced_symbol ''-'') = AsPrefix
   \<and> Parse example_options (example_syntax 300) [] []
        [name_token ''a'', spaced_symbol ''-'', name_token ''b'']
       = Inr (Some (Infix ''-'' (Name ''a'') (Name ''b'')), [], [])"
  by code_simp

text \<open>
  C2, as the code has it. A name or symbol \<open>n\<close> other than the closing delimiter, read
  when there is a result and no pending left operand, is an infix if it has an infix
  priority and either it has no prefix priority, or no space stood before it, or a space
  stood after it; otherwise a postfix if it has a postfix priority; otherwise a prefix. As
  an infix the result becomes its left operand; as a postfix the result, after the stack
  was flushed with the postfix priority, becomes its operand; as a prefix the name becomes
  \<open>right\<close> with its prefix priority, or the function priority when it has none.
\<close>

theorem operator_discrimination:
  assumes "tok t = tokNAME \<or> tok t = tokSYMBOL" and "NameValue t \<noteq> closing"
    and "result st = Some r" and "left st = None"
  shows "let d = default_priority (tables syn); n = NameValue t;
             st' = scan_token opts syn closing t st
         in treated_as st' =
              (if InfixPriority syn n \<noteq> d \<and>
                  (PrefixPriority syn n = d \<or> \<not> hadSpaceBefore t \<or> hadSpaceAfter t)
               then AsInfix
               else if PostfixPriority syn n \<noteq> d then AsPostfix
               else AsPrefix)
          \<and> (treated_as st' = AsInfix \<longrightarrow>
                left st' = Some r \<and> infix_name st' = n \<and> infix_prio st' = InfixPriority syn n
                \<and> right st' = right st \<and> result st' = Some r)
          \<and> (treated_as st' = AsPostfix \<longrightarrow>
                right st' = Some (Postfix (snd (flush opts d (finished st) (PostfixPriority syn n)
                                                  (stack st) r)) (Name n))
                \<and> prefix_prio st' = PostfixPriority syn n \<and> result st' = None)
          \<and> (treated_as st' = AsPrefix \<longrightarrow>
                right st' = Some (Name n) \<and> result st' = Some r
                \<and> prefix_prio st' = (if PrefixPriority syn n = d
                                      then function_priority (tables syn)
                                      else PrefixPriority syn n))"
proof -
  have e: "scan_token opts syn closing t st = scan_operator opts syn t r st"
    using assms by (simp add: scan_token_name scan_name_def)
  show ?thesis
    unfolding Let_def e
    using assms(3,4)
    by (simp add: scan_operator_def treated_as_def Let_def split_beta)
qed

theorem operator_discrimination_witness:
  "treated_as (scan_token example_options (example_syntax 300) [] (spaced_symbol ''-'') after_a)
     = AsInfix
   \<and> treated_as (scan_token example_options (example_syntax 300) []
        ((spaced_symbol ''-'')\<lparr> hadSpaceAfter := False \<rparr>) after_a) = AsPrefix
   \<and> treated_as (scan_token example_options (example_syntax 300) [] (spaced_symbol ''!'') after_a)
     = AsPostfix"
proof -
  have i: "result after_a = Some (Name ''a'')" "left after_a = None"
    by (simp_all add: after_a_def new_parse_def Let_def)
  have t: "tok (spaced_symbol n) = tokSYMBOL" "NameValue (spaced_symbol n) = n"
    "hadSpaceAfter (spaced_symbol n)" "hadSpaceBefore (spaced_symbol n)" for n
    by (simp_all add: spaced_symbol_def eof_token_def)
  have h: "InfixPriority (example_syntax 300) ''-'' = 300"
    "PrefixPriority (example_syntax 300) ''-'' = 400"
    "InfixPriority (example_syntax 300) ''!'' = default_priority empty_tables"
    "PostfixPriority (example_syntax 300) ''-'' = default_priority empty_tables"
    "PostfixPriority (example_syntax 300) ''!'' = 450"
    "default_priority (tables (example_syntax 300)) = default_priority empty_tables"
    "default_priority empty_tables \<noteq> 300" "default_priority empty_tables \<noteq> 400"
    "default_priority empty_tables \<noteq> 450"
    by (simp_all add: example_syntax_def example_tables_def InfixPriority_def
          PrefixPriority_def PostfixPriority_def empty_tables_def)
  from operator_discrimination [of "spaced_symbol ''-''" "[]" after_a "Name ''a''" "example_syntax 300" example_options]
       operator_discrimination [of "(spaced_symbol ''-'')\<lparr> hadSpaceAfter := False \<rparr>" "[]" after_a "Name ''a''"
                "example_syntax 300" example_options]
       operator_discrimination [of "spaced_symbol ''!''" "[]" after_a "Name ''a''" "example_syntax 300" example_options]
       i t h
  show ?thesis by (simp add: Let_def)
qed

text \<open>
  C9. In an iteration of the loop (not yet done, no pending left operand), when the input
  ends, or the scanner answers \<open>tokEOF\<close> or \<open>tokERROR\<close>, while a closing delimiter other
  than \<open>Block::unindent\<close> is expected, the parser appends the error of the unexpected end
  to the sink; when it reads a closing parenthesis other than the expected delimiter, it
  appends the error of the mismatched parentheses. In both cases the loop ends there, the
  tokens that follow are left to the caller, and the tree returned is the one built from
  what was parsed before the token. The loop is a total function, and its value in these
  cases is a normal return.
\<close>

theorem Parse_loop_reports_and_returns:
  assumes nf: "\<not> finished st" and l: "left st = None"
  shows "(closing \<noteq> [] \<and> closing \<noteq> Block_unindent \<longrightarrow>
            (\<exists>st'. Parse_loop opts syn closing st [] = Inr (st', [])
               \<and> finished st' \<and> errors st' = errors st @ [UnexpectedEnd closing]
               \<and> finish opts st' = finish opts st))
       \<and> ((tok t = tokEOF \<or> tok t = tokERROR) \<and> closing \<noteq> [] \<and> closing \<noteq> Block_unindent \<longrightarrow>
            (\<exists>st'. Parse_loop opts syn closing st (t # ts) = Inr (st', ts)
               \<and> finished st' \<and> errors st' = errors st @ [UnexpectedEnd closing]
               \<and> finish opts st' = finish opts st))
       \<and> (tok t = tokPARCLOSE \<and> NameValue t \<noteq> closing \<longrightarrow>
            (\<exists>st'. Parse_loop opts syn closing st (t # ts) = Inr (st', ts)
               \<and> finished st'
               \<and> errors st' = errors st @ [MismatchedParentheses (NameValue t) closing]
               \<and> finish opts st' = finish opts st))"
proof (intro conjI impI)
  assume c: "closing \<noteq> [] \<and> closing \<noteq> Block_unindent"
  define st1 where "st1 = scan_token opts syn closing eof_token (next_turn syn st)"
  have s1: "st1 = Log (UnexpectedEnd closing) ((next_turn syn st)\<lparr> finished := True \<rparr>)"
    unfolding st1_def using c by (simp add: scan_token_eof)
  have "Parse_loop opts syn closing st [] = Inr (combine opts syn st1, [])"
    using nf by (simp add: st1_def)
  with Parse_loop_stop [OF nf l s1, of opts]
  show "\<exists>st'. Parse_loop opts syn closing st [] = Inr (st', [])
               \<and> finished st' \<and> errors st' = errors st @ [UnexpectedEnd closing]
               \<and> finish opts st' = finish opts st"
    by simp
next
  assume c: "(tok t = tokEOF \<or> tok t = tokERROR) \<and> closing \<noteq> [] \<and> closing \<noteq> Block_unindent"
  define st1 where "st1 = scan_token opts syn closing t (next_turn syn st)"
  have s1: "st1 = Log (UnexpectedEnd closing) ((next_turn syn st)\<lparr> finished := True \<rparr>)"
    unfolding st1_def using c by (simp add: scan_token_end)
  have sp: "special_syntax opts syn closing t = Inr None"
    using c by (auto simp add: special_syntax_def)
  have tk: "tok t \<noteq> tokINDENT" "tok t \<noteq> tokPAROPEN" using c by auto
  have "Parse_loop opts syn closing st (t # ts) = Parse_loop opts syn closing (combine opts syn st1) ts"
    unfolding st1_def using nf tk sp by (rule Parse_loop_simple)
  with Parse_loop_stop [OF nf l s1, of opts]
  show "\<exists>st'. Parse_loop opts syn closing st (t # ts) = Inr (st', ts)
               \<and> finished st' \<and> errors st' = errors st @ [UnexpectedEnd closing]
               \<and> finish opts st' = finish opts st"
    by (simp add: Parse_loop_finished del: Parse_loop.simps)
next
  assume c: "tok t = tokPARCLOSE \<and> NameValue t \<noteq> closing"
  define e where "e = MismatchedParentheses (NameValue t) closing"
  define st1 where "st1 = scan_token opts syn closing t (next_turn syn st)"
  have s1: "st1 = Log e ((next_turn syn st)\<lparr> finished := True \<rparr>)"
    unfolding st1_def e_def using c by (simp add: scan_token_parclose Log_def)
  have sp: "special_syntax opts syn closing t = Inr None"
    using c by (auto simp add: special_syntax_def)
  have tk: "tok t \<noteq> tokINDENT" "tok t \<noteq> tokPAROPEN" using c by auto
  have "Parse_loop opts syn closing st (t # ts) = Parse_loop opts syn closing (combine opts syn st1) ts"
    unfolding st1_def using nf tk sp by (rule Parse_loop_simple)
  with Parse_loop_stop [OF nf l s1, of opts]
  show "\<exists>st'. Parse_loop opts syn closing st (t # ts) = Inr (st', ts)
               \<and> finished st'
               \<and> errors st' = errors st @ [MismatchedParentheses (NameValue t) closing]
               \<and> finish opts st' = finish opts st"
    by (simp add: Parse_loop_finished e_def del: Parse_loop.simps)
qed

theorem Parse_loop_reports_and_returns_witness:
  "(\<exists>st'. Parse_loop example_options (example_syntax 300) '')'' after_open_a [] = Inr (st', [])
       \<and> finished st' \<and> errors st' = [UnexpectedEnd '')'']
       \<and> finish example_options st' = Some (Name ''a''))
   \<and> (\<exists>st'. Parse_loop example_options (example_syntax 300) '')'' after_open_a
               [paren_token tokPARCLOSE '']'', name_token ''b''] = Inr (st', [name_token ''b''])
       \<and> finished st' \<and> errors st' = [MismatchedParentheses '']'' '')'']
       \<and> finish example_options st' = Some (Name ''a''))
   \<and> Parse example_options (example_syntax 300) [] []
        [paren_token tokPAROPEN ''('', name_token ''a'']
       = Inr (Some (Block (Name ''a'') ''('' '')''), [], [UnexpectedEnd '')''])
   \<and> Parse example_options (example_syntax 300) [] []
        [paren_token tokPAROPEN ''('', name_token ''a'', paren_token tokPARCLOSE '']'']
       = Inr (Some (Block (Name ''a'') ''('' '')''), [], [MismatchedParentheses '']'' '')''])"
proof -
  have i: "\<not> finished after_open_a" "left after_open_a = None" "errors after_open_a = []"
    "finish example_options after_open_a = Some (Name ''a'')"
    by (simp_all add: after_open_a_def new_parse_def Let_def finish_def)
  have t: "tok (paren_token tokPARCLOSE '']'') = tokPARCLOSE"
    "NameValue (paren_token tokPARCLOSE '']'') = '']''"
    by (simp_all add: paren_token_def)
  have p1: "Parse example_options (example_syntax 300) [] []
        [paren_token tokPAROPEN ''('', name_token ''a'']
       = Inr (Some (Block (Name ''a'') ''('' '')''), [], [UnexpectedEnd '')''])"
    by code_simp
  have p2: "Parse example_options (example_syntax 300) [] []
        [paren_token tokPAROPEN ''('', name_token ''a'', paren_token tokPARCLOSE '']'']
       = Inr (Some (Block (Name ''a'') ''('' '')''), [], [MismatchedParentheses '']'' '')''])"
    by code_simp
  from Parse_loop_reports_and_returns [OF i(1,2), where closing = "'')''"
         and opts = example_options and syn = "example_syntax 300"
         and t = "paren_token tokPARCLOSE '']''" and ts = "[name_token ''b'']"] i(3,4) t p1 p2
  show ?thesis by (simp add: Block_unindent_def del: Parse_loop.simps)
qed

end
